theory Spec2Isabelle
  imports Complex_Main
begin

section \<open>JavaScript numbers\<close>

text \<open>
  A JavaScript number is an IEEE-754 double: a finite value, given here by the real it
  denotes, or one of the three special values. The result of an arithmetic operation is
  the exact result rounded to the nearest double, ties to the double with an even
  significand, and an infinity where the rounded magnitude reaches \<open>2 ^ 1024\<close>. The
  sign of zero is not kept.
\<close>

datatype jsnum = Fin real | PosInf | NegInf | NaN

definition rne :: "real \<Rightarrow> int" where
  \<comment> \<open>the nearest integer, a tie going to the even one\<close>
  "rne q =
     (let f = \<lfloor>q\<rfloor>; d = q - of_int f
      in if d < 1 / 2 then f else if 1 / 2 < d then f + 1 else if even f then f else f + 1)"

definition binade :: "real \<Rightarrow> int" where
  \<comment> \<open>the \<open>k\<close> with \<open>2 ^ k \<le> |x| < 2 ^ (k + 1)\<close>, for \<open>x \<noteq> 0\<close>\<close>
  "binade x = \<lfloor>log 2 \<bar>x\<bar>\<rfloor>"

definition ulp_exponent :: "real \<Rightarrow> int" where
  \<comment> \<open>doubles near \<open>x\<close> are the multiples of \<open>2 ^ ulp_exponent x\<close>: 53 significant
      bits, and the subnormals below \<open>2 ^ -1022\<close> are the multiples of \<open>2 ^ -1074\<close>\<close>
  "ulp_exponent x = max (binade x) (- 1022) - 52"

definition rd :: "real \<Rightarrow> real" where
  \<comment> \<open>rounding to nearest, ties to even, before the overflow check\<close>
  "rd x =
     (if x = 0 then 0
      else of_int (rne (x / 2 powr of_int (ulp_exponent x))) * 2 powr of_int (ulp_exponent x))"

definition fl :: "real \<Rightarrow> jsnum" where
  \<comment> \<open>the double of a real result\<close>
  "fl x =
     (let r = rd x
      in if 2 ^ 1024 \<le> \<bar>r\<bar> then (if 0 < r then PosInf else NegInf) else Fin r)"

definition signed_inf :: "real \<Rightarrow> jsnum" where
  \<comment> \<open>the infinity with the sign of \<open>s\<close>; \<open>0 * Infinity\<close> and \<open>0 / 0\<close> are NaN\<close>
  "signed_inf s = (if s = 0 then NaN else if 0 < s then PosInf else NegInf)"

fun js_neg :: "jsnum \<Rightarrow> jsnum" where
  "js_neg (Fin a) = Fin (- a)"
| "js_neg PosInf = NegInf"
| "js_neg NegInf = PosInf"
| "js_neg NaN = NaN"

fun js_add :: "jsnum \<Rightarrow> jsnum \<Rightarrow> jsnum" where
  "js_add (Fin a) (Fin b) = fl (a + b)"
| "js_add NaN _ = NaN"
| "js_add _ NaN = NaN"
| "js_add PosInf NegInf = NaN"
| "js_add NegInf PosInf = NaN"
| "js_add PosInf _ = PosInf"
| "js_add _ PosInf = PosInf"
| "js_add NegInf _ = NegInf"
| "js_add _ NegInf = NegInf"

definition js_sub :: "jsnum \<Rightarrow> jsnum \<Rightarrow> jsnum" where
  "js_sub a b = js_add a (js_neg b)"

fun js_mul :: "jsnum \<Rightarrow> jsnum \<Rightarrow> jsnum" where
  "js_mul (Fin a) (Fin b) = fl (a * b)"
| "js_mul NaN _ = NaN"
| "js_mul _ NaN = NaN"
| "js_mul (Fin a) PosInf = signed_inf a"
| "js_mul (Fin a) NegInf = signed_inf (- a)"
| "js_mul PosInf (Fin b) = signed_inf b"
| "js_mul NegInf (Fin b) = signed_inf (- b)"
| "js_mul PosInf PosInf = PosInf"
| "js_mul PosInf NegInf = NegInf"
| "js_mul NegInf PosInf = NegInf"
| "js_mul NegInf NegInf = PosInf"

fun js_div :: "jsnum \<Rightarrow> jsnum \<Rightarrow> jsnum" where
  "js_div (Fin a) (Fin b) = (if b = 0 then signed_inf a else fl (a / b))"
| "js_div NaN _ = NaN"
| "js_div _ NaN = NaN"
| "js_div (Fin a) PosInf = Fin 0"
| "js_div (Fin a) NegInf = Fin 0"
| "js_div PosInf (Fin b) = (if 0 \<le> b then PosInf else NegInf)"
| "js_div NegInf (Fin b) = (if 0 \<le> b then NegInf else PosInf)"
| "js_div _ _ = NaN"

definition js_trunc :: "real \<Rightarrow> int" where
  \<comment> \<open>rounding towards zero\<close>
  "js_trunc r = (if 0 \<le> r then \<lfloor>r\<rfloor> else \<lceil>r\<rceil>)"

fun js_rem :: "jsnum \<Rightarrow> jsnum \<Rightarrow> jsnum" where
  \<comment> \<open>the operator \<open>%\<close>: the remainder has the sign of the dividend and is exact
      (it needs no rounding); \<open>a % 0\<close> is NaN\<close>
  "js_rem (Fin a) (Fin b) =
     (if b = 0 then NaN else Fin (a - b * of_int (js_trunc (a / b))))"
| "js_rem (Fin a) PosInf = Fin a"
| "js_rem (Fin a) NegInf = Fin a"
| "js_rem _ _ = NaN"

text \<open>
  \<open>Math.cos\<close> and \<open>Math.sin\<close> are approximations the engine chooses; they are taken
  as the rounded cosine and sine. \<open>Math.PI\<close> is the double nearest to \<open>\<pi>\<close>.
\<close>

fun js_cos :: "jsnum \<Rightarrow> jsnum" where
  "js_cos (Fin a) = fl (cos a)"
| "js_cos _ = NaN"

fun js_sin :: "jsnum \<Rightarrow> jsnum" where
  "js_sin (Fin a) = fl (sin a)"
| "js_sin _ = NaN"

definition Math_PI :: jsnum where
  "Math_PI = fl pi"

section \<open>Decoded JSON values\<close>

text \<open>
  The value \<open>JSON.parse\<close> returns. An object is the list of its own properties.
  \<open>None\<close> of type \<open>jsval\<close> is JavaScript's \<open>undefined\<close>, the value of a property
  that is not there.
\<close>

datatype json =
    JNull
  | JBool bool
  | JNum jsnum
  | JStr string
  | JArr "json list"
  | JObj "(string \<times> json) list"

type_synonym jsval = "json option"

datatype exn = SyntaxError | TypeError

definition get_prop :: "jsval \<Rightarrow> string \<Rightarrow> exn + jsval" where
  \<comment> \<open>Property access \<open>v.k\<close>. On \<open>undefined\<close> and \<open>null\<close> it throws a TypeError. On
      a number, boolean, string or array none of the property names this program reads
      exists, so the access yields \<open>undefined\<close>.\<close>
  "get_prop v k =
     (case v of
        None \<Rightarrow> Inl TypeError
      | Some JNull \<Rightarrow> Inl TypeError
      | Some (JObj kvs) \<Rightarrow> Inr (map_of kvs k)
      | Some _ \<Rightarrow> Inr None)"

definition read_prop :: "jsval \<Rightarrow> string \<Rightarrow> jsval" where
  \<comment> \<open>\<open>v.k\<close> where an earlier access to \<open>v\<close> has not thrown\<close>
  "read_prop v k = (case get_prop v k of Inr w \<Rightarrow> w | Inl _ \<Rightarrow> None)"

definition num_field :: "jsval \<Rightarrow> string \<Rightarrow> jsnum option" where
  \<comment> \<open>the property \<open>k\<close> of \<open>v\<close> when it is there and a number\<close>
  "num_field v k = (case get_prop v k of Inr (Some (JNum n)) \<Rightarrow> Some n | _ \<Rightarrow> None)"

definition int_field :: "jsval \<Rightarrow> string \<Rightarrow> int option" where
  \<comment> \<open>the property \<open>k\<close> of \<open>v\<close> when it is there and an integer\<close>
  "int_field v k =
     (case num_field v k of
        Some (Fin r) \<Rightarrow> (if r = of_int \<lfloor>r\<rfloor> then Some \<lfloor>r\<rfloor> else None)
      | _ \<Rightarrow> None)"

section \<open>The tornado effect generator\<close>

text \<open>
  The particle record of \<open>particles.push\<close>. The fields \<open>id\<close>, \<open>x\<close>, \<open>y\<close> and
  \<open>z\<close> of the source are \<open>pid\<close>, \<open>px\<close>, \<open>py\<close> and \<open>pz\<close> here. The loop index
  is a natural number, so \<open>pid\<close> is one.
\<close>

record Particle =
  pid :: nat
  px :: jsnum
  py :: jsnum
  pz :: jsnum
  vx :: jsnum
  vy :: jsnum
  vz :: jsnum
  ax :: jsnum
  ay :: jsnum
  az :: jsnum
  radius :: jsnum
  color :: string
  life :: jsnum
  layer :: jsnum
  turbulence :: jsnum
  rotation :: jsnum
  rotationSpeed :: jsnum

record AdvancedPhysics =
  gravity :: jsnum
  windForce :: jsnum
  vortexStrength :: jsnum
  turbulenceScale :: jsnum

record RenderedEffect =
  position :: jsval
  particles :: "Particle list"
  duration :: jsval
  spiralLayers :: jsval
  particleCount :: jsval
  colorScheme :: jsval
  physics :: bool
  lighting :: bool
  renderQuality :: string
  gpuAccelerated :: bool
  serverRendered :: bool
  renderTime :: int
  advancedPhysics :: AdvancedPhysics

text \<open>
  The locals of the loop body, each as a function of what it is computed from: \<open>i\<close> is
  the loop index, \<open>n\<close> is \<open>parameters.particleCount\<close> and \<open>l\<close> is
  \<open>parameters.spiralLayers\<close>.
\<close>

definition layerIndex :: "nat \<Rightarrow> int \<Rightarrow> jsnum" where
  "layerIndex i l = js_rem (Fin (of_nat i)) (Fin (of_int l))"

definition angle :: "nat \<Rightarrow> int \<Rightarrow> jsnum" where
  "angle i n = js_mul (js_mul (js_div (Fin (of_nat i)) (Fin (of_int n))) Math_PI) (Fin 2)"

definition radiusScale :: "jsnum \<Rightarrow> int \<Rightarrow> jsnum" where
  "radiusScale li l = js_div li (Fin (of_int l))"

definition spiralRadius :: "jsnum \<Rightarrow> jsnum" where
  "spiralRadius li = js_add (Fin 40) (js_mul li (Fin 60))"

definition rotationOffset :: "jsnum \<Rightarrow> int \<Rightarrow> jsnum" where
  "rotationOffset li l = js_mul li (js_div (js_mul Math_PI (Fin 2)) (Fin (of_int l)))"

definition pickColor :: "real \<Rightarrow> string" where
  \<comment> \<open>the if-chain on \<open>colorRand\<close>\<close>
  "pickColor colorRand =
     (if colorRand > 85 / 100 then ''#ffffff''
      else if colorRand > 7 / 10 then ''#ffff99''
      else if colorRand > 5 / 10 then ''#ffaa00''
      else if colorRand > 3 / 10 then ''#ff6600''
      else ''#cc3300'')"

text \<open>
  The literals \<open>0.3\<close>, \<open>0.8\<close> and \<open>-9.81\<close> are the doubles nearest to these decimals.

  \<open>Math.random()\<close> is an input of the model: \<open>rnd i k\<close> is the value of the
  \<open>k\<close>-th call (from 0) in the iteration for particle \<open>i\<close>. An iteration makes five
  calls, in this order: \<open>heightVariance\<close>, \<open>baseSpeed\<close>, \<open>colorRand\<close>,
  \<open>rotation\<close>, \<open>rotationSpeed\<close>.
\<close>

definition particle ::
  "(nat \<Rightarrow> nat \<Rightarrow> real) \<Rightarrow> jsnum \<Rightarrow> jsnum \<Rightarrow> int \<Rightarrow> int \<Rightarrow> nat \<Rightarrow> Particle" where
  "particle rnd posx posy n l i =
     (let li = layerIndex i l;
          an = angle i n;
          heightVariance = js_sub (js_mul (Fin (rnd i 0)) (Fin 150)) (Fin 75);
          baseSpeed = js_add (Fin 150) (js_mul (Fin (rnd i 1)) (Fin 100));
          velocityX = js_mul (js_cos (js_add an (rotationOffset li l))) baseSpeed;
          velocityY = js_mul heightVariance (Fin 30);
          velocityZ = js_mul (js_sin (js_add an (rotationOffset li l))) baseSpeed;
          centerPull = fl (3 / 10);
          colorRand = rnd i 2
      in \<lparr> pid = i,
           px = js_add posx (js_mul (js_cos an) (spiralRadius li)),
           py = js_add posy heightVariance,
           pz = js_mul (js_sin an) (spiralRadius li),
           vx = velocityX,
           vy = velocityY,
           vz = velocityZ,
           ax = js_mul (js_neg (js_cos an)) centerPull,
           ay = Fin 50,
           az = js_mul (js_neg (js_sin an)) centerPull,
           radius = js_sub (Fin 8) (js_mul (radiusScale li l) (Fin 4)),
           color = pickColor colorRand,
           life = Fin 1,
           layer = li,
           turbulence = fl (8 / 10),
           rotation = js_mul (js_mul (Fin (rnd i 3)) Math_PI) (Fin 2),
           rotationSpeed = js_mul (js_sub (Fin (rnd i 4)) (Fin (5 / 10))) (Fin 10) \<rparr>)"

text \<open>The loop \<open>for (let i = 0; i < parameters.particleCount; i++)\<close>, from index \<open>i\<close>
  with the particles pushed so far.\<close>

function particle_loop ::
  "(nat \<Rightarrow> nat \<Rightarrow> real) \<Rightarrow> jsnum \<Rightarrow> jsnum \<Rightarrow> int \<Rightarrow> int \<Rightarrow> nat \<Rightarrow> Particle list
    \<Rightarrow> Particle list" where
  "particle_loop rnd posx posy n l i ps =
     (if int i < n
      then particle_loop rnd posx posy n l (Suc i) (ps @ [particle rnd posx posy n l i])
      else ps)"
  by pat_completeness auto
termination
  by (relation "measure (\<lambda>(rnd, posx, posy, n, l, i, ps). nat (n - int i))") auto

declare particle_loop.simps [simp del]

text \<open>
  What a call yields: a value, an exception, or a run outside this model. The model
  covers the configurations whose four numeric fields have the types of the data model
  (\<open>position.x\<close> and \<open>position.y\<close> numbers, \<open>particleCount\<close> and \<open>spiralLayers\<close>
  integers); on any other shape the language coerces, and the result is not described
  here.
\<close>

datatype 'a outcome = Returns 'a | Throws exn | Unmodelled

definition typed_config :: "jsval \<Rightarrow> (jsnum \<times> jsnum \<times> int \<times> int) option" where
  \<comment> \<open>\<open>(position.x, position.y, particleCount, spiralLayers)\<close> of a configuration of
      the data model's shape\<close>
  "typed_config config =
     (case (get_prop config ''position'', get_prop config ''parameters'') of
        (Inr pos, Inr pars) \<Rightarrow>
          (case (num_field pos ''x'', num_field pos ''y'',
                 int_field pars ''particleCount'', int_field pars ''spiralLayers'') of
             (Some x, Some y, Some n, Some l) \<Rightarrow> Some (x, y, n, l)
           | _ \<Rightarrow> None)
      | _ \<Rightarrow> None)"

text \<open>
  \<open>Date.now()\<close> is an input as well: \<open>now k\<close> is the \<open>k\<close>-th reading (from 0) taken
  while one message is handled. The generator takes readings 0 and 1.

  The destructuring of \<open>config\<close> throws on \<open>undefined\<close> and \<open>null\<close>; the first test
  of the loop condition reads \<open>parameters.particleCount\<close> and throws when
  \<open>parameters\<close> is \<open>undefined\<close> or \<open>null\<close>.
\<close>

definition generateTornadoEffect ::
  "(nat \<Rightarrow> nat \<Rightarrow> real) \<Rightarrow> (nat \<Rightarrow> int) \<Rightarrow> jsval \<Rightarrow> RenderedEffect outcome" where
  "generateTornadoEffect rnd now config =
     (case get_prop config ''position'' of
        Inl e \<Rightarrow> Throws e
      | Inr pos \<Rightarrow>
          (case get_prop config ''parameters'' of
             Inl e \<Rightarrow> Throws e
           | Inr pars \<Rightarrow>
               (case get_prop pars ''particleCount'' of
                  Inl e \<Rightarrow> Throws e
                | Inr _ \<Rightarrow>
                    (case typed_config config of
                       None \<Rightarrow> Unmodelled
                     | Some (x, y, n, l) \<Rightarrow>
                         Returns
                           \<lparr> position = pos,
                             particles = particle_loop rnd x y n l 0 [],
                             duration = read_prop pars ''duration'',
                             spiralLayers = read_prop pars ''spiralLayers'',
                             particleCount = read_prop pars ''particleCount'',
                             colorScheme = read_prop pars ''colorScheme'',
                             physics = True,
                             lighting = True,
                             renderQuality = ''ultra'',
                             gpuAccelerated = True,
                             serverRendered = True,
                             renderTime = now 1 - now 0,
                             advancedPhysics =
                               \<lparr> gravity = fl (- 981 / 100),
                                 windForce = Fin (5 / 10),
                                 vortexStrength = Fin 2,
                                 turbulenceScale = fl (8 / 10) \<rparr> \<rparr>))))"

section \<open>The bridge server\<close>

text \<open>
  A connection is the WebSocket object the library creates for it; objects are numbered
  in the order of their creation. The state holds the two globals of the program,
  \<open>clients\<close> and \<open>messageCount\<close>, and what the program reads of the \<open>ws\<close> library:
  the server's own set \<open>wss.clients\<close> and the \<open>readyState\<close> of every socket. A
  JavaScript \<open>Set\<close> is a list without duplicates, in insertion order.
\<close>

datatype ready_state = CONNECTING | OPEN | CLOSING | CLOSED

record bridge =
  clients :: "nat list"
  messageCount :: nat
  wss_clients :: "nat list"
  readyState :: "nat \<Rightarrow> ready_state"
  allocated :: nat

definition set_add :: "nat \<Rightarrow> nat list \<Rightarrow> nat list" where
  "set_add c cs = (if c \<in> set cs then cs else cs @ [c])"

definition set_delete :: "nat \<Rightarrow> nat list \<Rightarrow> nat list" where
  "set_delete c cs = removeAll c cs"

definition init :: bridge where
  "init = \<lparr> clients = [], messageCount = 0, wss_clients = [],
           readyState = (\<lambda>_. CONNECTING), allocated = 0 \<rparr>"

text \<open>
  What the handler takes from its environment: the variable \<open>PORT\<close> of the process
  environment, \<open>JSON.parse\<close> (\<open>None\<close> where it throws a SyntaxError),
  \<open>Math.random\<close> and \<open>Date.now\<close>.
\<close>

record env =
  env_PORT :: "string option"
  JSON_parse :: "string \<Rightarrow> json option"
  Math_random :: "nat \<Rightarrow> nat \<Rightarrow> real"
  Date_now :: "nat \<Rightarrow> int"

definition PORT :: "string option \<Rightarrow> json" where
  \<comment> \<open>\<open>process.env.PORT || 8765\<close>: an unset or empty variable is falsy\<close>
  "PORT v = (case v of None \<Rightarrow> JNum (Fin 8765)
             | Some p \<Rightarrow> (if p = [] then JNum (Fin 8765) else JStr p))"

text \<open>
  The three object literals the handler sends, by their \<open>type\<close> field:
  \<^item> \<open>EffectRendered effectId renderTime data timestamp\<close>, with \<open>effectType\<close>
    \<open>fire_tornado\<close>;
  \<^item> \<open>EffectBroadcast position config timestamp\<close>, with \<open>effectType\<close>
    \<open>fire_tornado\<close>;
  \<^item> \<open>Response original processed port timestamp\<close>.
  A handler's output is the list of its calls of \<open>send\<close>: the socket it is called on
  and the message object whose \<open>JSON.stringify\<close> text is the argument (the text is
  \<open>stringify\<close> below).
\<close>

datatype outbound =
    EffectRendered jsval int RenderedEffect int
  | EffectBroadcast jsval jsval int
  | Response jsval bool json int

fun msg_type :: "outbound \<Rightarrow> string" where
  "msg_type (EffectRendered _ _ _ _) = ''effect_rendered''"
| "msg_type (EffectBroadcast _ _ _) = ''effect_broadcast''"
| "msg_type (Response _ _ _ _) = ''response''"

fun forEach_broadcast :: "bridge \<Rightarrow> nat \<Rightarrow> outbound \<Rightarrow> nat list \<Rightarrow> (nat \<times> outbound) list" where
  \<comment> \<open>\<open>wss.clients.forEach\<close> with the guarded \<open>client.send\<close>\<close>
  "forEach_broadcast s ws m [] = []"
| "forEach_broadcast s ws m (client # cs) =
     (if client \<noteq> ws \<and> readyState s client = OPEN then [(client, m)] else [])
     @ forEach_broadcast s ws m cs"

definition try_block :: "env \<Rightarrow> bridge \<Rightarrow> nat \<Rightarrow> string \<Rightarrow> (nat \<times> outbound) list outcome" where
  \<comment> \<open>The body of \<open>try\<close> in the message handler of socket \<open>ws\<close>. The log line
      between the reply and the broadcast calls \<open>toFixed\<close> on \<open>position.x\<close> and
      \<open>position.y\<close>: numbers wherever the generator has returned, so it does not
      throw.\<close>
  "try_block e s ws data =
     (case JSON_parse e data of
        None \<Rightarrow> Throws SyntaxError
      | Some parsed \<Rightarrow>
          (case get_prop (Some parsed) ''command'' of
             Inl ex \<Rightarrow> Throws ex
           | Inr command \<Rightarrow>
               (if command = Some (JStr ''render_effect'')
                   \<and> read_prop (Some parsed) ''effectType'' = Some (JStr ''fire_tornado'')
                then
                  (let config = read_prop (Some parsed) ''config'' in
                   case generateTornadoEffect (Math_random e) (Date_now e) config of
                     Throws ex \<Rightarrow> Throws ex
                   | Unmodelled \<Rightarrow> Unmodelled
                   | Returns effectData \<Rightarrow>
                       Returns
                         ((ws, EffectRendered (read_prop (Some parsed) ''effectId'')
                                 (renderTime effectData) effectData (Date_now e 2))
                          # forEach_broadcast s ws
                              (EffectBroadcast (read_prop config ''position'')
                                 (read_prop config ''parameters'') (Date_now e 3))
                              (wss_clients s)))
                else
                  Returns [(ws, Response (Some parsed) True (PORT (env_PORT e)) (Date_now e 0))])))"

definition onMessage ::
  "env \<Rightarrow> nat \<Rightarrow> string \<Rightarrow> bridge \<Rightarrow> bridge \<times> (nat \<times> outbound) list option" where
  \<comment> \<open>\<open>ws.on('message')\<close>: the new state, and the calls of \<open>send\<close> (\<open>None\<close> where the
      run is outside the model). The counter is incremented before the \<open>try\<close>; the
      \<open>catch\<close> logs and sends nothing.\<close>
  "onMessage e ws data s =
     (let s' = s\<lparr>messageCount := messageCount s + 1\<rparr>
      in (s', case try_block e s' ws data of
                Returns out \<Rightarrow> Some out
              | Throws _ \<Rightarrow> Some []
              | Unmodelled \<Rightarrow> None))"

definition onClose :: "nat \<Rightarrow> bridge \<Rightarrow> bridge" where
  \<comment> \<open>\<open>ws.on('close')\<close>\<close>
  "onClose ws s = s\<lparr>clients := set_delete ws (clients s)\<rparr>"

definition onConnection :: "nat \<Rightarrow> bridge \<Rightarrow> bridge" where
  \<comment> \<open>\<open>wss.on('connection')\<close>; the handlers it registers are \<open>onMessage\<close>,
      \<open>onClose\<close> and a logging error handler\<close>
  "onConnection ws s = s\<lparr>clients := set_add ws (clients s)\<rparr>"

text \<open>
  The events of a run. The library creates a socket, puts it into \<open>wss.clients\<close> in
  state \<open>OPEN\<close> and emits \<open>connection\<close>; when the closing handshake of a socket starts
  its state is \<open>CLOSING\<close>; when it is closed its state is \<open>CLOSED\<close>, the library takes
  it out of \<open>wss.clients\<close> and emits \<open>close\<close>.
\<close>

datatype event =
    Connection
  | Message nat string
  | Closing nat
  | Close nat
  | Error nat

fun step :: "env \<Rightarrow> event \<Rightarrow> bridge \<Rightarrow> bridge" where
  "step e Connection s =
     (let ws = allocated s
      in onConnection ws
           (s\<lparr>allocated := Suc ws,
              readyState := (readyState s)(ws := OPEN),
              wss_clients := set_add ws (wss_clients s)\<rparr>))"
| "step e (Message ws data) s = fst (onMessage e ws data s)"
| "step e (Closing ws) s = s\<lparr>readyState := (readyState s)(ws := CLOSING)\<rparr>"
| "step e (Close ws) s =
     onClose ws
       (s\<lparr>readyState := (readyState s)(ws := CLOSED),
          wss_clients := set_delete ws (wss_clients s)\<rparr>)"
| "step e (Error ws) s = s"

fun run :: "env \<Rightarrow> event list \<Rightarrow> bridge \<Rightarrow> bridge" where
  "run e [] s = s"
| "run e (ev # evs) s = run e evs (step e ev s)"

fun can_occur :: "bridge \<Rightarrow> event \<Rightarrow> bool" where
  \<comment> \<open>an event of a socket occurs only between its \<open>connection\<close> and its \<open>close\<close>\<close>
  "can_occur s Connection = True"
| "can_occur s (Message ws data) = (ws \<in> set (wss_clients s))"
| "can_occur s (Closing ws) = (ws \<in> set (wss_clients s) \<and> readyState s ws = OPEN)"
| "can_occur s (Close ws) = (ws \<in> set (wss_clients s))"
| "can_occur s (Error ws) = (ws \<in> set (wss_clients s))"

fun wf_trace :: "env \<Rightarrow> bridge \<Rightarrow> event list \<Rightarrow> bool" where
  "wf_trace e s [] = True"
| "wf_trace e s (ev # evs) = (can_occur s ev \<and> wf_trace e (step e ev s) evs)"

fun accepts :: "event list \<Rightarrow> nat" where
  "accepts [] = 0"
| "accepts (Connection # evs) = Suc (accepts evs)"
| "accepts (_ # evs) = accepts evs"

fun closes :: "event list \<Rightarrow> nat" where
  "closes [] = 0"
| "closes (Close _ # evs) = Suc (closes evs)"
| "closes (_ # evs) = closes evs"

section \<open>The roster along a run\<close>

definition roster_inv :: "bridge \<Rightarrow> bool" where
  \<comment> \<open>the program's roster is the library's set: duplicate-free, of created sockets\<close>
  "roster_inv s =
     (clients s = wss_clients s \<and> distinct (wss_clients s)
      \<and> (\<forall>c \<in> set (wss_clients s). c < allocated s))"

definition gone :: "bridge \<Rightarrow> nat \<Rightarrow> bool" where
  \<comment> \<open>socket \<open>c\<close> was created and is no longer in \<open>wss.clients\<close>\<close>
  "gone s c = (c < allocated s \<and> c \<notin> set (wss_clients s))"

section \<open>What a socket is sent\<close>

definition received :: "nat \<Rightarrow> (nat \<times> outbound) list \<Rightarrow> outbound list" where
  \<comment> \<open>the messages sent on socket \<open>c\<close> among the calls of \<open>send\<close>, in order\<close>
  "received c out = map snd (filter (\<lambda>(c', m). c' = c) out)"

definition sent_types :: "(nat \<times> outbound) list \<Rightarrow> (nat \<times> string) list" where
  \<comment> \<open>each call of \<open>send\<close> with the \<open>type\<close> field of its message\<close>
  "sent_types out = map (\<lambda>(c, m). (c, msg_type m)) out"

fun rendered_particles :: "outbound \<Rightarrow> Particle list" where
  \<comment> \<open>the particle data of a message: only \<open>effect_rendered\<close> has a \<open>data\<close> field\<close>
  "rendered_particles (EffectRendered _ _ d _) = particles d"
| "rendered_particles (EffectBroadcast _ _ _) = []"
| "rendered_particles (Response _ _ _ _) = []"

definition sent_particles :: "nat \<Rightarrow> (nat \<times> outbound) list \<Rightarrow> Particle list" where
  \<comment> \<open>the particle objects in the message objects for socket \<open>c\<close>, as they are before
      \<open>JSON.stringify\<close>\<close>
  "sent_particles c out = concat (map rendered_particles (received c out))"

section \<open>The text that is sent\<close>

text \<open>
  The argument of \<open>send\<close> is the \<open>JSON.stringify\<close> text of the message object. The
  text is given by the value a JSON parser reads back from it (the order of the keys is
  the order of the object literal). \<open>JSON.stringify\<close> writes a finite number as itself,
  NaN and the infinities as \<open>null\<close>, and leaves out a property whose value is
  \<open>undefined\<close>.
\<close>

fun num_json :: "jsnum \<Rightarrow> json" where
  "num_json (Fin r) = JNum (Fin r)"
| "num_json PosInf = JNull"
| "num_json NegInf = JNull"
| "num_json NaN = JNull"

primrec stringify_json :: "json \<Rightarrow> json" where
  \<comment> \<open>a decoded value written again\<close>
  "stringify_json JNull = JNull"
| "stringify_json (JBool b) = JBool b"
| "stringify_json (JNum n) = num_json n"
| "stringify_json (JStr t) = JStr t"
| "stringify_json (JArr xs) = JArr (map stringify_json xs)"
| "stringify_json (JObj kvs) = JObj (map (map_prod id stringify_json) kvs)"

definition opt_field :: "string \<Rightarrow> jsval \<Rightarrow> (string \<times> json) list" where
  \<comment> \<open>the property \<open>k: v\<close> of an object literal, in the text\<close>
  "opt_field k v = (case v of None \<Rightarrow> [] | Some j \<Rightarrow> [(k, stringify_json j)])"

definition particle_json :: "Particle \<Rightarrow> json" where
  "particle_json p =
     JObj [(''id'', JNum (Fin (of_nat (pid p)))),
           (''x'', num_json (px p)), (''y'', num_json (py p)), (''z'', num_json (pz p)),
           (''vx'', num_json (vx p)), (''vy'', num_json (vy p)), (''vz'', num_json (vz p)),
           (''ax'', num_json (ax p)), (''ay'', num_json (ay p)), (''az'', num_json (az p)),
           (''radius'', num_json (radius p)),
           (''color'', JStr (color p)),
           (''life'', num_json (life p)),
           (''layer'', num_json (layer p)),
           (''turbulence'', num_json (turbulence p)),
           (''rotation'', num_json (rotation p)),
           (''rotationSpeed'', num_json (rotationSpeed p))]"

definition effect_json :: "RenderedEffect \<Rightarrow> json" where
  "effect_json d =
     JObj (opt_field ''position'' (position d)
           @ [(''particles'', JArr (map particle_json (particles d)))]
           @ opt_field ''duration'' (duration d)
           @ opt_field ''spiralLayers'' (spiralLayers d)
           @ opt_field ''particleCount'' (particleCount d)
           @ opt_field ''colorScheme'' (colorScheme d)
           @ [(''physics'', JBool (physics d)),
              (''lighting'', JBool (lighting d)),
              (''renderQuality'', JStr (renderQuality d)),
              (''gpuAccelerated'', JBool (gpuAccelerated d)),
              (''serverRendered'', JBool (serverRendered d)),
              (''renderTime'', JNum (Fin (of_int (renderTime d)))),
              (''advancedPhysics'',
                 JObj [(''gravity'', num_json (gravity (advancedPhysics d))),
                       (''windForce'', num_json (windForce (advancedPhysics d))),
                       (''vortexStrength'', num_json (vortexStrength (advancedPhysics d))),
                       (''turbulenceScale'', num_json (turbulenceScale (advancedPhysics d)))])])"

fun stringify :: "outbound \<Rightarrow> json" where
  "stringify (EffectRendered effectId rt d ts) =
     JObj ([(''type'', JStr ''effect_rendered''), (''effectType'', JStr ''fire_tornado'')]
           @ opt_field ''effectId'' effectId
           @ [(''renderTime'', JNum (Fin (of_int rt))),
              (''data'', effect_json d),
              (''timestamp'', JNum (Fin (of_int ts)))])"
| "stringify (EffectBroadcast pos cfg ts) =
     JObj ([(''type'', JStr ''effect_broadcast''), (''effectType'', JStr ''fire_tornado'')]
           @ opt_field ''position'' pos
           @ opt_field ''config'' cfg
           @ [(''timestamp'', JNum (Fin (of_int ts)))])"
| "stringify (Response original processed port ts) =
     JObj ([(''type'', JStr ''response'')]
           @ opt_field ''original'' original
           @ [(''processed'', JBool processed),
              (''port'', stringify_json port),
              (''timestamp'', JNum (Fin (of_int ts)))])"

definition wire_particle_field :: "string \<Rightarrow> outbound \<Rightarrow> jsval list" where
  \<comment> \<open>the property \<open>k\<close> of every entry of \<open>data.particles\<close> in the text of a message\<close>
  "wire_particle_field k m =
     (case read_prop (read_prop (Some (stringify m)) ''data'') ''particles'' of
        Some (JArr ps) \<Rightarrow> map (\<lambda>p. read_prop (Some p) k) ps
      | _ \<Rightarrow> [])"

section \<open>Example inputs\<close>

text \<open>A render configuration of the data model's shape: three particles on two layers.\<close>

abbreviation example_config :: json where
  "example_config \<equiv>
     JObj [(''position'', JObj [(''x'', JNum (Fin 100)), (''y'', JNum (Fin 200))]),
           (''parameters'',
              JObj [(''particleCount'', JNum (Fin 3)), (''spiralLayers'', JNum (Fin 2)),
                    (''duration'', JNum (Fin 5000)), (''colorScheme'', JStr ''fire'')])]"

text \<open>A render request with this configuration, and the text that decodes to it.\<close>

abbreviation example_message :: json where
  "example_message \<equiv>
     JObj [(''command'', JStr ''render_effect''), (''effectType'', JStr ''fire_tornado''),
           (''effectId'', JStr ''fx1''), (''config'', example_config)]"

abbreviation example_text :: string where
  \<open>example_text \<equiv> ''{"command":"render_effect","effectType":"fire_tornado","effectId":"fx1","config":{"position":{"x":100,"y":200},"parameters":{"particleCount":3,"spiralLayers":2,"duration":5000,"colorScheme":"fire"}}}''\<close>

text \<open>A render request for one particle on zero layers.\<close>

abbreviation zero_layers_config :: json where
  "zero_layers_config \<equiv>
     JObj [(''position'', JObj [(''x'', JNum (Fin 100)), (''y'', JNum (Fin 200))]),
           (''parameters'',
              JObj [(''particleCount'', JNum (Fin 1)), (''spiralLayers'', JNum (Fin 0)),
                    (''duration'', JNum (Fin 5000)), (''colorScheme'', JStr ''fire'')])]"

abbreviation zero_layers_message :: json where
  "zero_layers_message \<equiv>
     JObj [(''command'', JStr ''render_effect''), (''effectType'', JStr ''fire_tornado''),
           (''effectId'', JStr ''fx2''), (''config'', zero_layers_config)]"

abbreviation zero_layers_text :: string where
  \<open>zero_layers_text \<equiv> ''{"command":"render_effect","effectType":"fire_tornado","effectId":"fx2","config":{"position":{"x":100,"y":200},"parameters":{"particleCount":1,"spiralLayers":0,"duration":5000,"colorScheme":"fire"}}}''\<close>

text \<open>A render configuration for two particles on \<open>10 ^ 16\<close> layers.\<close>

abbreviation big_layers_config :: json where
  "big_layers_config \<equiv>
     JObj [(''position'', JObj [(''x'', JNum (Fin 100)), (''y'', JNum (Fin 200))]),
           (''parameters'',
              JObj [(''particleCount'', JNum (Fin 2)),
                    (''spiralLayers'', JNum (Fin 10000000000000000)),
                    (''duration'', JNum (Fin 5000)), (''colorScheme'', JStr ''fire'')])]"

text \<open>A render request without a configuration, and the text that decodes to it.\<close>

abbreviation bare_render_message :: json where
  "bare_render_message \<equiv>
     JObj [(''command'', JStr ''render_effect''), (''effectType'', JStr ''fire_tornado'')]"

abbreviation bare_render_text :: string where
  \<open>bare_render_text \<equiv> ''{"command":"render_effect","effectType":"fire_tornado"}''\<close>

text \<open>A request that is not a render request, and the text that decodes to it.\<close>

abbreviation ping_message :: json where
  "ping_message \<equiv> JObj [(''command'', JStr ''ping'')]"

abbreviation ping_text :: string where
  \<open>ping_text \<equiv> ''{"command":"ping"}''\<close>

text \<open>
  An environment: \<open>PORT\<close> unset, every sample of \<open>Math.random\<close> one half, the
  \<open>k\<close>-th reading of the clock \<open>k\<close>, and for \<open>JSON.parse\<close> a function that
  decodes the texts above and \<open>null\<close> as \<open>JSON.parse\<close> does and throws on every
  other text, as \<open>JSON.parse\<close> does on a malformed one.
\<close>

abbreviation example_parse :: "string \<Rightarrow> json option" where
  "example_parse \<equiv>
     (\<lambda>d. if d = example_text then Some example_message
          else if d = zero_layers_text then Some zero_layers_message
          else if d = ping_text then Some ping_message
          else if d = ''null'' then Some JNull
          else None)"

abbreviation example_env :: env where
  "example_env \<equiv>
     \<lparr> env_PORT = None, JSON_parse = example_parse,
       Math_random = (\<lambda>i k. 1 / 2), Date_now = (\<lambda>k. int k) \<rparr>"

text \<open>An environment whose \<open>JSON.parse\<close> decodes the request without a configuration.\<close>

abbreviation bare_render_env :: env where
  "bare_render_env \<equiv>
     \<lparr> env_PORT = None,
       JSON_parse = (\<lambda>d. if d = bare_render_text then Some bare_render_message else None),
       Math_random = (\<lambda>i k. 1 / 2), Date_now = (\<lambda>k. int k) \<rparr>"

text \<open>The state with the sockets 0, 1 and 2 open and no message handled yet.\<close>

abbreviation example_state :: bridge where
  "example_state \<equiv>
     \<lparr> clients = [0, 1, 2], messageCount = 0, wss_clients = [0, 1, 2],
       readyState = (\<lambda>c. if c < 3 then OPEN else CONNECTING), allocated = 3 \<rparr>"

section \<open>Properties of the generator\<close>

lemma particle_loop_eq:
  "particle_loop rnd x y n l i ps = ps @ map (particle rnd x y n l) [i..<nat n]"
proof (induction rnd x y n l i ps rule: particle_loop.induct)
  case (1 rnd posx posy n l i ps)
  show ?case
  proof (cases "int i < n")
    case True
    then have "i < nat n" by linarith
    then have "[i..<nat n] = i # [Suc i..<nat n]" by (rule upt_conv_Cons)
    with True "1" show ?thesis by (subst particle_loop.simps) simp
  next
    case False
    then have "nat n \<le> i" by linarith
    with False show ?thesis by (subst particle_loop.simps) simp
  qed
qed

lemma particles_from_zero:
  "particle_loop rnd x y n l 0 [] = map (particle rnd x y n l) [0..<nat n]"
  by (simp add: particle_loop_eq)

lemma js_trunc_nonneg: "0 \<le> r \<Longrightarrow> js_trunc r = \<lfloor>r\<rfloor>"
  by (simp add: js_trunc_def)

lemma layerIndex_pos:
  assumes "0 < l"
  shows "layerIndex i l = Fin (of_int (int i mod l))"
proof -
  have nz: "real_of_int l \<noteq> 0" using assms by simp
  have "0 \<le> real i / real_of_int l" using assms by simp
  then have "js_trunc (real i / real_of_int l) = \<lfloor>real_of_int (int i) / real_of_int l\<rfloor>"
    by (simp add: js_trunc_nonneg)
  also have "\<dots> = int i div l" by (rule floor_divide_of_int_eq)
  finally have t: "js_trunc (real i / real_of_int l) = int i div l" .
  have "real i - real_of_int l * real_of_int (int i div l) = real_of_int (int i - l * (int i div l))"
    by simp
  also have "int i - l * (int i div l) = int i mod l"
    by (simp add: minus_mult_div_eq_mod)
  finally show ?thesis using nz by (simp add: layerIndex_def t)
qed

lemma layerIndex_zero: "layerIndex i 0 = NaN"
  by (simp add: layerIndex_def)

lemma int_field_get_prop:
  assumes "int_field v k = Some n"
  shows "\<exists>w. get_prop v k = Inr w"
  using assms by (cases "get_prop v k") (simp_all add: int_field_def num_field_def)

lemma typed_config_props:
  assumes "typed_config config = Some (x, y, n, l)"
  shows "\<exists>pos pars pc. get_prop config ''position'' = Inr pos
           \<and> get_prop config ''parameters'' = Inr pars
           \<and> get_prop pars ''particleCount'' = Inr pc"
proof (cases "get_prop config ''position''")
  case (Inl a)
  with assms show ?thesis by (simp add: typed_config_def)
next
  case pos: (Inr pos)
  show ?thesis
  proof (cases "get_prop config ''parameters''")
    case (Inl a)
    with assms pos show ?thesis by (simp add: typed_config_def)
  next
    case pars: (Inr pars)
    from assms pos pars have "int_field pars ''particleCount'' = Some n"
      by (simp add: typed_config_def split: option.splits)
    from int_field_get_prop [OF this] pos pars show ?thesis by simp
  qed
qed

lemma generate_typed:
  assumes "typed_config config = Some (x, y, n, l)"
  shows "\<exists>r. generateTornadoEffect rnd now config = Returns r
           \<and> particles r = map (particle rnd x y n l) [0..<nat n]
           \<and> renderTime r = now 1 - now 0
           \<and> position r = read_prop config ''position''"
proof -
  from typed_config_props [OF assms] obtain pos pars pc where
    p: "get_prop config ''position'' = Inr pos"
       "get_prop config ''parameters'' = Inr pars"
       "get_prop pars ''particleCount'' = Inr pc" by blast
  show ?thesis
    unfolding generateTornadoEffect_def
    by (simp add: p assms particles_from_zero read_prop_def)
qed

lemma layer_particle [simp]: "layer (particle rnd x y n l i) = layerIndex i l"
  by (simp add: particle_def Let_def)

lemma pid_particle [simp]: "pid (particle rnd x y n l i) = i"
  by (simp add: particle_def Let_def)

lemma color_particle [simp]: "color (particle rnd x y n l i) = pickColor (rnd i 2)"
  by (simp add: particle_def Let_def)

lemma radius_particle [simp]:
  "radius (particle rnd x y n l i) = js_sub (Fin 8) (js_mul (radiusScale (layerIndex i l) l) (Fin 4))"
  by (simp add: particle_def Let_def)

lemma px_particle [simp]:
  "px (particle rnd x y n l i) = js_add x (js_mul (js_cos (angle i n)) (spiralRadius (layerIndex i l)))"
  by (simp add: particle_def Let_def)

lemma pz_particle [simp]:
  "pz (particle rnd x y n l i) = js_mul (js_sin (angle i n)) (spiralRadius (layerIndex i l))"
  by (simp add: particle_def Let_def)

text \<open>
  Claim C1. For a configuration of the data model's shape with \<open>particleCount = n > 0\<close>
  and \<open>spiralLayers = l > 0\<close>, \<open>generateTornadoEffect\<close> returns, the particle
  list has exactly \<open>n\<close> entries, and the particle at index \<open>i\<close> has layer
  \<open>i mod l\<close>, which lies in \<open>[0, l)\<close>.
\<close>

theorem tornado_count_and_layers:
  assumes "typed_config config = Some (x, y, n, l)" and "0 < n" and "0 < l"
  shows "\<exists>r. generateTornadoEffect rnd now config = Returns r
           \<and> length (particles r) = nat n
           \<and> (\<forall>i < nat n. layer (particles r ! i) = Fin (of_int (int i mod l))
                  \<and> 0 \<le> int i mod l \<and> int i mod l < l)"
proof -
  from generate_typed [OF assms(1)] obtain r where
    r: "generateTornadoEffect rnd now config = Returns r"
       "particles r = map (particle rnd x y n l) [0..<nat n]" by blast
  have "length (particles r) = nat n" by (simp add: r(2))
  moreover have "\<forall>i < nat n. layer (particles r ! i) = Fin (of_int (int i mod l))
                  \<and> 0 \<le> int i mod l \<and> int i mod l < l"
    using assms(3) by (simp add: r(2) layerIndex_pos)
  ultimately show ?thesis using r(1) by blast
qed

lemma example_typed:
  "typed_config (Some example_config) = Some (Fin 100, Fin 200, 3, 2)"
  by (simp add: typed_config_def get_prop_def num_field_def int_field_def)

theorem tornado_count_and_layers_witness:
  "typed_config (Some example_config) = Some (Fin 100, Fin 200, 3, 2) \<and> (0::int) < 3 \<and> (0::int) < 2
   \<and> (\<exists>r. generateTornadoEffect (\<lambda>i k. 1 / 2) (\<lambda>k. int k) (Some example_config) = Returns r
         \<and> length (particles r) = 3
         \<and> layer (particles r ! 0) = Fin 0
         \<and> layer (particles r ! 1) = Fin 1
         \<and> layer (particles r ! 2) = Fin 0)"
proof -
  from tornado_count_and_layers [OF example_typed, of "\<lambda>i k. 1 / 2" "\<lambda>k. int k"]
  obtain r where
    r: "generateTornadoEffect (\<lambda>i k. 1 / 2) (\<lambda>k. int k) (Some example_config) = Returns r"
       "length (particles r) = nat 3"
       "\<forall>i < nat 3. layer (particles r ! i) = Fin (of_int (int i mod 2))
                  \<and> 0 \<le> int i mod 2 \<and> int i mod 2 < 2"
    by auto
  have "layer (particles r ! 0) = Fin 0" using r(3) by simp
  moreover have "layer (particles r ! 1) = Fin 1" using r(3) by simp
  moreover have "layer (particles r ! 2) = Fin 0" 
  proof -
    have "(2::nat) < nat 3" by simp
    with r(3) have "layer (particles r ! 2) = Fin (of_int (int 2 mod 2))" by blast
    then show ?thesis by simp
  qed
  moreover have "length (particles r) = 3" using r(2) by simp
  ultimately have "\<exists>r. generateTornadoEffect (\<lambda>i k. 1 / 2) (\<lambda>k. int k) (Some example_config) = Returns r
         \<and> length (particles r) = 3
         \<and> layer (particles r ! 0) = Fin 0
         \<and> layer (particles r ! 1) = Fin 1
         \<and> layer (particles r ! 2) = Fin 0"
    using r(1) by blast
  with example_typed show ?thesis by simp
qed


text \<open>
  Claim C10. For a configuration of the data model's shape with \<open>particleCount = n\<close>,
  the particle at list position \<open>i\<close> has \<open>id = i\<close>: the ids are \<open>0, ..., n - 1\<close>
  in order, and pairwise distinct.
\<close>

theorem tornado_ids:
  assumes "typed_config config = Some (x, y, n, l)"
  shows "\<exists>r. generateTornadoEffect rnd now config = Returns r
           \<and> length (particles r) = nat n
           \<and> (\<forall>i < nat n. pid (particles r ! i) = i)
           \<and> map pid (particles r) = [0..<nat n]
           \<and> distinct (map pid (particles r))"
proof -
  from generate_typed [OF assms] obtain r where
    r: "generateTornadoEffect rnd now config = Returns r"
       "particles r = map (particle rnd x y n l) [0..<nat n]" by blast
  have m: "map pid (particles r) = [0..<nat n]"
    by (simp add: r(2) comp_def map_idI)
  have "distinct (map pid (particles r))" by (simp only: m distinct_upt)
  moreover have "\<forall>i < nat n. pid (particles r ! i) = i" by (simp add: r(2))
  moreover have "length (particles r) = nat n" by (simp add: r(2))
  ultimately show ?thesis using r(1) m by blast
qed

theorem tornado_ids_witness:
  "typed_config (Some example_config) = Some (Fin 100, Fin 200, 3, 2)
   \<and> (\<exists>r. generateTornadoEffect (\<lambda>i k. 1 / 2) (\<lambda>k. int k) (Some example_config) = Returns r
         \<and> map pid (particles r) = [0, 1, 2])"
proof -
  from tornado_ids [OF example_typed, of "\<lambda>i k. 1 / 2" "\<lambda>k. int k"]
  obtain r where
    r: "generateTornadoEffect (\<lambda>i k. 1 / 2) (\<lambda>k. int k) (Some example_config) = Returns r"
       "map pid (particles r) = [0..<nat 3]"
    by blast
  have "[0..<nat 3] = [0, 1, 2]" by (simp add: upt_rec)
  with r have "\<exists>r. generateTornadoEffect (\<lambda>i k. 1 / 2) (\<lambda>k. int k) (Some example_config) = Returns r
         \<and> map pid (particles r) = [0, 1, 2]" by auto
  with example_typed show ?thesis by simp
qed

lemma pickColor_range:
  "pickColor c \<in> {''#ffffff'', ''#ffff99'', ''#ffaa00'', ''#ff6600'', ''#cc3300''}"
  by (simp add: pickColor_def)

lemma band_white: "(pickColor c = ''#ffffff'') = (85 / 100 < c)"
  by (simp add: pickColor_def)

lemma band_yellow: "(pickColor c = ''#ffff99'') = (7 / 10 < c \<and> c \<le> 85 / 100)"
  by (auto simp add: pickColor_def)

lemma band_orange: "(pickColor c = ''#ffaa00'') = (5 / 10 < c \<and> c \<le> 7 / 10)"
  by (auto simp add: pickColor_def)

lemma band_deep: "(pickColor c = ''#ff6600'') = (3 / 10 < c \<and> c \<le> 5 / 10)"
  by (auto simp add: pickColor_def)

lemma band_red: "(pickColor c = ''#cc3300'') = (c \<le> 3 / 10)"
  by (auto simp add: pickColor_def)

text \<open>
  Claim C6. Every particle's colour is one of five fixed values, chosen by comparing one
  sample of \<open>Math.random()\<close> (the third of the iteration) with the thresholds 0.85,
  0.7, 0.5 and 0.3. Within \<open>[0, 1)\<close> the samples that select a colour form an
  interval, of width 0.15, 0.15, 0.2, 0.2 and 0.3 from the white core to the red edge.
\<close>

theorem tornado_colors:
  assumes "typed_config config = Some (x, y, n, l)"
  shows "(\<exists>r. generateTornadoEffect rnd now config = Returns r
            \<and> length (particles r) = nat n
            \<and> (\<forall>i < nat n.
                   color (particles r ! i) = pickColor (rnd i 2)
                   \<and> color (particles r ! i)
                       \<in> {''#ffffff'', ''#ffff99'', ''#ffaa00'', ''#ff6600'', ''#cc3300''}))
         \<and> {c. 0 \<le> c \<and> c < 1 \<and> pickColor c = ''#ffffff''} = {85 / 100 <..< 1}
         \<and> {c. 0 \<le> c \<and> c < 1 \<and> pickColor c = ''#ffff99''} = {7 / 10 <.. 85 / 100}
         \<and> {c. 0 \<le> c \<and> c < 1 \<and> pickColor c = ''#ffaa00''} = {5 / 10 <.. 7 / 10}
         \<and> {c. 0 \<le> c \<and> c < 1 \<and> pickColor c = ''#ff6600''} = {3 / 10 <.. 5 / 10}
         \<and> {c. 0 \<le> c \<and> c < 1 \<and> pickColor c = ''#cc3300''} = {0 .. 3 / 10}
         \<and> (1::real) - 85 / 100 = 15 / 100 \<and> (85::real) / 100 - 7 / 10 = 15 / 100
         \<and> (7::real) / 10 - 5 / 10 = 2 / 10 \<and> (5::real) / 10 - 3 / 10 = 2 / 10
         \<and> (3::real) / 10 - 0 = 3 / 10"
proof -
  from generate_typed [OF assms] obtain r where
    r: "generateTornadoEffect rnd now config = Returns r"
       "particles r = map (particle rnd x y n l) [0..<nat n]" by blast
  have len: "length (particles r) = nat n" by (simp add: r(2))
  have c: "\<forall>i < nat n.
                  color (particles r ! i) = pickColor (rnd i 2)
                  \<and> color (particles r ! i)
                      \<in> {''#ffffff'', ''#ffff99'', ''#ffaa00'', ''#ff6600'', ''#cc3300''}"
    using pickColor_range by (simp add: r(2))
  have ex: "\<exists>r. generateTornadoEffect rnd now config = Returns r
            \<and> length (particles r) = nat n
            \<and> (\<forall>i < nat n.
                   color (particles r ! i) = pickColor (rnd i 2)
                   \<and> color (particles r ! i)
                       \<in> {''#ffffff'', ''#ffff99'', ''#ffaa00'', ''#ff6600'', ''#cc3300''})"
    by (intro exI [of _ r] conjI) (rule r(1) len c)+
  have b1: "{c. 0 \<le> c \<and> c < 1 \<and> pickColor c = ''#ffffff''} = {85 / 100 <..< 1}"
    unfolding band_white by auto
  have b2: "{c. 0 \<le> c \<and> c < 1 \<and> pickColor c = ''#ffff99''} = {7 / 10 <.. 85 / 100}"
    unfolding band_yellow by auto
  have b3: "{c. 0 \<le> c \<and> c < 1 \<and> pickColor c = ''#ffaa00''} = {5 / 10 <.. 7 / 10}"
    unfolding band_orange by auto
  have b4: "{c. 0 \<le> c \<and> c < 1 \<and> pickColor c = ''#ff6600''} = {3 / 10 <.. 5 / 10}"
    unfolding band_deep by auto
  have b5: "{c. 0 \<le> c \<and> c < 1 \<and> pickColor c = ''#cc3300''} = {0 .. 3 / 10}"
    unfolding band_red by auto
  have ar: "(1::real) - 85 / 100 = 15 / 100" "(85::real) / 100 - 7 / 10 = 15 / 100"
    "(7::real) / 10 - 5 / 10 = 2 / 10" "(5::real) / 10 - 3 / 10 = 2 / 10"
    "(3::real) / 10 - 0 = 3 / 10" by simp_all
  show ?thesis
    by (intro conjI) (rule ex b1 b2 b3 b4 b5 ar)+
qed

theorem tornado_colors_witness:
  "typed_config (Some example_config) = Some (Fin 100, Fin 200, 3, 2)
   \<and> (\<exists>r. generateTornadoEffect (\<lambda>i k. 1 / 2) (\<lambda>k. int k) (Some example_config) = Returns r
         \<and> length (particles r) = 3
         \<and> color (particles r ! 0) = ''#ff6600''
         \<and> color (particles r ! 2) = ''#ff6600'')"
proof -
  from tornado_colors [OF example_typed, of "\<lambda>i k. 1 / 2" "\<lambda>k. int k", THEN conjunct1]
  obtain r where
    r: "generateTornadoEffect (\<lambda>i k. 1 / 2) (\<lambda>k. int k) (Some example_config) = Returns r"
       "length (particles r) = nat 3"
       "\<forall>i < nat 3. color (particles r ! i) = pickColor (1 / 2)"
    by blast
  have p: "pickColor (1 / 2) = ''#ff6600''" by (simp add: pickColor_def)
  have "(0::nat) < nat 3" and "(2::nat) < nat 3" by simp_all
  with r(3) p have "color (particles r ! 0) = ''#ff6600''" and "color (particles r ! 2) = ''#ff6600''"
    by metis+
  moreover have "length (particles r) = 3" using r(2) by simp
  ultimately have "\<exists>r. generateTornadoEffect (\<lambda>i k. 1 / 2) (\<lambda>k. int k) (Some example_config) = Returns r
         \<and> length (particles r) = 3
         \<and> color (particles r ! 0) = ''#ff6600''
         \<and> color (particles r ! 2) = ''#ff6600''"
    using r(1) by blast
  with example_typed show ?thesis by simp
qed

section \<open>Properties of the rounding\<close>

lemma rne_err: "\<bar>of_int (rne q) - q\<bar> \<le> 1 / 2"
  unfolding rne_def Let_def by (auto simp: abs_if) linarith+

lemma rne_of_int [simp]: "rne (of_int z) = z"
  by (simp add: rne_def)

lemma rne_lower: "\<lfloor>q\<rfloor> \<le> rne q"
  by (simp add: rne_def Let_def)

lemma rne_upper: "rne q \<le> \<lfloor>q\<rfloor> + 1"
  by (simp add: rne_def Let_def)

lemma rne_mono:
  assumes "q \<le> q'"
  shows "rne q \<le> rne q'"
proof (cases "\<lfloor>q\<rfloor> = \<lfloor>q'\<rfloor>")
  case True
  with assms show ?thesis by (auto simp: rne_def Let_def)
next
  case False
  with assms have "\<lfloor>q\<rfloor> < \<lfloor>q'\<rfloor>" using floor_mono [OF assms] by linarith
  with rne_upper [of q] rne_lower [of q'] show ?thesis by linarith
qed

lemma rne_nonneg: "0 \<le> q \<Longrightarrow> 0 \<le> rne q"
  using rne_mono [of 0 q] rne_of_int [of 0] by simp

lemma binade_eq:
  assumes "x \<noteq> 0" and "2 powr of_int k \<le> \<bar>x\<bar>" and "\<bar>x\<bar> < 2 powr (of_int k + 1)"
  shows "binade x = k"
  unfolding binade_def using assms by (subst floor_log_eq_powr_iff) simp_all

lemma binade_bounds:
  assumes "x \<noteq> 0"
  shows "2 powr of_int (binade x) \<le> \<bar>x\<bar>" and "\<bar>x\<bar> < 2 powr (of_int (binade x) + 1)"
proof -
  have "0 < \<bar>x\<bar>" using assms by simp
  from floor_log_eq_powr_iff [OF this, of 2 "binade x"]
  show "2 powr of_int (binade x) \<le> \<bar>x\<bar>" and "\<bar>x\<bar> < 2 powr (of_int (binade x) + 1)"
    by (simp_all add: binade_def)
qed

lemma binade_le:
  assumes "x \<noteq> 0" and "\<bar>x\<bar> < 2 powr (of_int K + 1)"
  shows "binade x \<le> K"
proof -
  from binade_bounds(1) [OF assms(1)] assms(2)
  have "(2::real) powr of_int (binade x) < 2 powr (of_int K + 1)" by linarith
  then have "real_of_int (binade x) < of_int K + 1" by simp
  then show ?thesis by linarith
qed

lemma binade_mono:
  assumes "0 < x" and "x \<le> y"
  shows "binade x \<le> binade y"
  unfolding binade_def using assms by (intro floor_mono) simp

lemma rd_err:
  assumes "\<bar>x\<bar> < 2 powr (of_int K + 1)" and "- 1022 \<le> K"
  shows "\<bar>rd x - x\<bar> \<le> 2 powr (of_int K - 53)"
proof (cases "x = 0")
  case True
  then show ?thesis by (simp add: rd_def)
next
  case False
  define e where "e = ulp_exponent x"
  define q where "q = x / 2 powr of_int e"
  have ek: "e \<le> K - 52"
    using binade_le [OF False assms(1)] assms(2) by (simp add: e_def ulp_exponent_def)
  have x: "x = q * 2 powr of_int e" by (simp add: q_def)
  have "rd x - x = (of_int (rne q) - q) * 2 powr of_int e"
    using False by (simp add: rd_def e_def [symmetric] q_def [symmetric] x [symmetric] algebra_simps)
  then have "\<bar>rd x - x\<bar> = \<bar>of_int (rne q) - q\<bar> * 2 powr of_int e"
    by (simp add: abs_mult)
  also have "\<dots> \<le> (1 / 2) * 2 powr of_int e"
    by (intro mult_right_mono rne_err) simp
  also have "\<dots> = 2 powr (of_int e - 1)" by (simp add: powr_diff)
  also have "\<dots> \<le> 2 powr (of_int K - 53)" using ek by simp
  finally show ?thesis .
qed

lemma rd_nonneg:
  assumes "0 \<le> x"
  shows "0 \<le> rd x"
proof (cases "x = 0")
  case True
  then show ?thesis by (simp add: rd_def)
next
  case False
  with assms have "0 \<le> x / 2 powr of_int (ulp_exponent x)" by simp
  from rne_nonneg [OF this] False show ?thesis by (simp add: rd_def)
qed

lemma binade_ge:
  assumes "x \<noteq> 0" and "2 powr of_int K \<le> \<bar>x\<bar>"
  shows "K \<le> binade x"
proof -
  from binade_bounds(2) [OF assms(1)] assms(2)
  have "(2::real) powr of_int K < 2 powr (of_int (binade x) + 1)" by linarith
  then have "real_of_int K < of_int (binade x) + 1" by simp
  then show ?thesis by linarith
qed

lemma rne_near:
  assumes "\<bar>q - of_int z\<bar> < 1 / 2"
  shows "rne q = z"
proof (cases "of_int z \<le> q")
  case True
  with assms have "\<lfloor>q\<rfloor> = z" by (intro floor_unique) (auto simp: abs_if split: if_splits)
  with assms True show ?thesis by (auto simp: rne_def Let_def abs_if split: if_splits)
next
  case False
  with assms have f: "\<lfloor>q\<rfloor> = z - 1" by (intro floor_unique) (auto simp: abs_if split: if_splits)
  with assms False show ?thesis by (auto simp: rne_def Let_def abs_if split: if_splits)
qed

lemma rd_exact:
  assumes "x = of_int m * 2 powr of_int (ulp_exponent x)"
  shows "rd x = x"
proof (cases "x = 0")
  case True
  then show ?thesis by (simp add: rd_def)
next
  case False
  have "x / 2 powr of_int (ulp_exponent x) = of_int m"
    by (subst assms) simp
  with False show ?thesis by (simp add: rd_def) (metis assms)
qed

lemma two_powr_neg_nat: "(2::real) powr of_int (- int n) = 1 / 2 ^ n"
  by (simp add: powr_minus powr_realpow inverse_eq_divide)

lemma rd_int:
  assumes "\<bar>z\<bar> < 2 ^ 53"
  shows "rd (of_int z) = of_int z"
proof (cases "z = 0")
  case True
  then show ?thesis by (simp add: rd_def)
next
  case False
  define x :: real where "x = of_int z"
  have xn: "x \<noteq> 0" using False by (simp add: x_def)
  have "1 \<le> \<bar>z\<bar>" using False by linarith
  then have "(2::real) powr of_int 0 \<le> \<bar>x\<bar>" by (simp add: x_def)
  from binade_ge [OF xn this] have b0: "0 \<le> binade x" .
  have "\<bar>x\<bar> < 2 ^ 53" using assms unfolding x_def
    by (metis of_int_abs of_int_less_numeral_power_cancel_iff)
  then have "\<bar>x\<bar> < 2 powr (of_int 52 + 1)" by simp
  from binade_le [OF xn this] have b52: "binade x \<le> 52" .
  define n where "n = nat (52 - binade x)"
  have e: "ulp_exponent x = - int n" using b0 b52 by (simp add: ulp_exponent_def n_def)
  have "x = of_int (z * 2 ^ n) * 2 powr of_int (ulp_exponent x)"
    by (simp only: e two_powr_neg_nat) (simp add: x_def)
  from rd_exact [OF this] show ?thesis by (simp add: x_def)
qed

lemma fl_eq_rd: "\<bar>rd x\<bar> < 2 ^ 1024 \<Longrightarrow> fl x = Fin (rd x)"
  by (simp add: fl_def Let_def)

lemma fl_int:
  assumes "\<bar>z\<bar> < 2 ^ 53"
  shows "fl (of_int z) = Fin (of_int z)"
proof -
  have "\<bar>real_of_int z\<bar> < 2 ^ 53" using assms
    by (metis of_int_abs of_int_less_numeral_power_cancel_iff)
  also have "(2::real) ^ 53 \<le> 2 ^ 1024" by (intro power_increasing) simp_all
  finally have "\<bar>rd (of_int z)\<bar> < 2 ^ 1024" by (simp add: rd_int [OF assms])
  from fl_eq_rd [OF this] show ?thesis by (simp add: rd_int [OF assms])
qed

lemma fl_small:
  assumes "\<bar>x\<bar> < 32"
  shows "fl x = Fin (rd x)"
proof -
  have "\<bar>x\<bar> < 2 powr (of_int 4 + 1)" using assms by simp
  from rd_err [OF this] have "\<bar>rd x - x\<bar> \<le> 2 powr (of_int 4 - 53)" by simp
  also have "\<dots> \<le> 2 powr 0" by (subst powr_le_cancel_iff) simp_all
  finally have "\<bar>rd x\<bar> < 33" using assms by simp
  also have "(33::real) \<le> 2 ^ 6" by simp
  also have "(2::real) ^ 6 \<le> 2 ^ 1024" by (intro power_increasing) simp_all
  finally show ?thesis by (rule fl_eq_rd)
qed

lemma rd_mono_nonneg:
  assumes "0 \<le> x" and "x \<le> y"
  shows "rd x \<le> rd y"
proof (cases "x = 0")
  case True
  with assms rd_nonneg [of y] show ?thesis by (simp add: rd_def)
next
  case False
  with assms have xp: "0 < x" and yp: "0 < y" by simp_all
  define ex where "ex = ulp_exponent x"
  define ey where "ey = ulp_exponent y"
  have exy: "ex \<le> ey"
    using binade_mono [OF xp assms(2)] by (simp add: ex_def ey_def ulp_exponent_def)
  have rx: "rd x = of_int (rne (x / 2 powr of_int ex)) * 2 powr of_int ex"
    using xp by (simp add: rd_def ex_def)
  have ry: "rd y = of_int (rne (y / 2 powr of_int ey)) * 2 powr of_int ey"
    using yp by (simp add: rd_def ey_def)
  show ?thesis
  proof (cases "ex = ey")
    case True
    have "x / 2 powr of_int ey \<le> y / 2 powr of_int ey"
      using assms(2) by (simp add: divide_right_mono)
    from rne_mono [OF this] show ?thesis
      by (simp add: rx ry True mult_right_mono)
  next
    case False
    with exy have lt: "ex < ey" by simp
    then have bxy: "binade x < binade y" and by1: "- 1022 < binade y"
      by (auto simp: ex_def ey_def ulp_exponent_def)
    then have eyb: "ey = binade y - 52" by (simp add: ey_def ulp_exponent_def)
    define B :: real where "B = 2 powr of_int (binade y)"
    have xB: "x \<le> B"
    proof -
      have "x < 2 powr (of_int (binade x) + 1)" using binade_bounds(2) [of x] xp by simp
      also have "\<dots> \<le> B" unfolding B_def using bxy by (subst powr_le_cancel_iff) simp_all
      finally show ?thesis by simp
    qed
    have By: "B \<le> y" using binade_bounds(1) [of y] yp by (simp add: B_def)
    have "B / 2 powr of_int ey = 2 powr 52"
      by (simp add: B_def eyb powr_diff [symmetric])
    then have By': "B / 2 powr of_int ey = of_int (2 ^ 52)" by simp
    have "B / 2 powr of_int ey \<le> y / 2 powr of_int ey"
      using By by (simp add: divide_right_mono)
    from rne_mono [OF this] have "2 ^ 52 \<le> rne (y / 2 powr of_int ey)"
      by (simp only: By' rne_of_int)
    then have "of_int (2 ^ 52) * 2 powr of_int ey \<le> rd y"
      by (simp only: ry) (intro mult_right_mono, simp_all)
    then have le2: "B \<le> rd y" by (simp only: By' [symmetric]) simp
    define d where "d = nat (binade y - ex)"
    have dpos: "int d = binade y - ex" using lt eyb by (simp add: d_def)
    have "B / 2 powr of_int ex = 2 powr of_int (int d)"
      by (simp add: B_def dpos powr_diff [symmetric])
    then have Bx': "B / 2 powr of_int ex = of_int (2 ^ d)"
      by (simp add: powr_realpow)
    have "x / 2 powr of_int ex \<le> B / 2 powr of_int ex"
      using xB by (simp add: divide_right_mono)
    from rne_mono [OF this] have "rne (x / 2 powr of_int ex) \<le> 2 ^ d"
      by (simp only: Bx' rne_of_int)
    then have "rd x \<le> of_int (2 ^ d) * 2 powr of_int ex"
      by (simp only: rx) (intro mult_right_mono, simp_all)
    then have "rd x \<le> B" by (simp only: Bx' [symmetric]) simp
    with le2 show ?thesis by linarith
  qed
qed

lemma rd_8_minus:
  assumes "0 \<le> m" and "m < 1 / 2 ^ 51"
  shows "rd (8 - m) = 8"
proof (cases "m = 0")
  case True
  from rd_int [of 8] show ?thesis by (simp add: True)
next
  case False
  define x where "x = 8 - m"
  have "(1::real) / 2 ^ 51 \<le> 1" by simp
  with assms False have x48: "4 \<le> x" "x < 8" by (simp_all add: x_def)
  then have xn: "x \<noteq> 0" by simp
  have "binade x = 2"
    using x48 by (intro binade_eq [OF xn]) simp_all
  then have e: "ulp_exponent x = - int 50" by (simp add: ulp_exponent_def)
  have q: "x / 2 powr of_int (ulp_exponent x) = x * 2 ^ 50"
    by (simp only: e two_powr_neg_nat) simp
  have "\<bar>x * 2 ^ 50 - of_int (2 ^ 53)\<bar> = m * 2 ^ 50" using assms(1) by (simp add: x_def)
  also have "\<dots> < 1 / 2 ^ 51 * 2 ^ 50" using assms(2) by (intro mult_strict_right_mono) simp_all
  also have "\<dots> = 1 / 2" by simp
  finally have "rne (x * 2 ^ 50) = 2 ^ 53" by (rule rne_near)
  then have r: "rne (x / 2 powr of_int (ulp_exponent x)) = 2 ^ 53" by (simp only: q)
  have "rd x = of_int (rne (x / 2 powr of_int (ulp_exponent x)))
                 * 2 powr of_int (ulp_exponent x)"
    using xn by (simp add: rd_def)
  also have "\<dots> = of_int (2 ^ 53) * 2 powr of_int (ulp_exponent x)" by (simp only: r)
  also have "\<dots> = of_int (2 ^ 53) * 2 powr of_int (- int 50)" by (simp only: e)
  also have "\<dots> = 8" by (simp only: two_powr_neg_nat) simp
  finally show ?thesis by (simp add: x_def)
qed

lemma rd_err_below:
  assumes "\<bar>x\<bar> < 1 / 2 ^ j" and "j \<le> 1021"
  shows "\<bar>rd x - x\<bar> \<le> 1 / 2 ^ (j + 54)"
proof -
  have "(2::real) powr (of_int (- int (j + 1)) + 1) = 2 powr of_int (- int j)" by simp
  also have "\<dots> = 1 / 2 ^ j" by (rule two_powr_neg_nat)
  finally have a: "\<bar>x\<bar> < 2 powr (of_int (- int (j + 1)) + 1)" using assms(1) by simp
  have b: "- 1022 \<le> - int (j + 1)" using assms(2) by simp
  have eq: "of_int (- int (j + 1)) - (53::real) = of_int (- int (j + 54))" by simp
  have "\<bar>rd x - x\<bar> \<le> 2 powr of_int (- int (j + 54))"
    by (rule rd_err [OF a b, unfolded eq])
  then show ?thesis by (simp only: two_powr_neg_nat)
qed

lemma rd_err_above:
  assumes "\<bar>x\<bar> < 2 ^ j"
  shows "\<bar>rd x - x\<bar> \<le> 2 ^ j / 2 ^ 54"
proof -
  have "(2::real) powr (of_int (int j - 1) + 1) = 2 powr of_int (int j)" by simp
  also have "\<dots> = 2 ^ j" by (simp add: powr_realpow)
  finally have a: "\<bar>x\<bar> < 2 powr (of_int (int j - 1) + 1)" using assms by simp
  have b: "- 1022 \<le> int j - 1" by simp
  have "(2::real) powr (of_int (int j - 1) - 53) = 2 powr (of_int (int j) + of_int (- int 54))"
    by simp
  also have "\<dots> = 2 powr of_int (int j) * 2 powr of_int (- int 54)" by (rule powr_add)
  also have "\<dots> = 2 ^ j / 2 ^ 54" by (simp only: two_powr_neg_nat) (simp add: powr_realpow)
  finally have eq: "(2::real) powr (of_int (int j - 1) - 53) = 2 ^ j / 2 ^ 54" .
  show ?thesis by (rule rd_err [OF a b, unfolded eq])
qed

text \<open>The value of \<open>8 - (radiusScale * 4)\<close> for \<open>radiusScale = a\<close> rounded.\<close>

lemma radius_chain:
  assumes "0 \<le> a" and "a < 1"
  shows "js_sub (Fin 8) (js_mul (fl a) (Fin 4)) = Fin (rd (8 - rd (rd a * 4)))"
    and "\<bar>rd (8 - rd (rd a * 4)) - (8 - 4 * a)\<bar> \<le> 1 / 2 ^ 49"
    and "rd (8 - rd (rd a * 4)) \<le> 8"
    and "0 \<le> rd (rd a * 4)" and "rd (rd a * 4) \<le> 5"
proof -
  have a1: "\<bar>a\<bar> < 1 / 2 ^ 0" using assms by simp
  from rd_err_below [OF a1] have e1: "\<bar>rd a - a\<bar> \<le> 1 / 2 ^ 54" by simp
  have r0: "0 \<le> rd a" by (rule rd_nonneg [OF assms(1)])
  have "(1::real) / 2 ^ 54 \<le> 1 / 8" by simp
  with e1 assms have r1: "rd a \<le> 9 / 8" by linarith
  have f1: "fl a = Fin (rd a)" using assms by (intro fl_small) simp
  have m8: "\<bar>rd a * 4\<bar> < 2 ^ 3" using r0 r1 by simp
  from rd_err_above [OF m8] have e2: "\<bar>rd (rd a * 4) - rd a * 4\<bar> \<le> 1 / 2 ^ 51" by simp
  have m0: "0 \<le> rd (rd a * 4)" using r0 by (intro rd_nonneg) simp
  have "(1::real) / 2 ^ 51 \<le> 1 / 2" by simp
  with e2 r1 have m5: "rd (rd a * 4) \<le> 5" by linarith
  have f2: "fl (rd a * 4) = Fin (rd (rd a * 4))" using r0 r1 by (intro fl_small) simp
  have t16: "\<bar>8 - rd (rd a * 4)\<bar> < 2 ^ 4" using m0 m5 by simp
  from rd_err_above [OF t16]
  have e3: "\<bar>rd (8 - rd (rd a * 4)) - (8 - rd (rd a * 4))\<bar> \<le> 1 / 2 ^ 50" by simp
  have f3: "fl (8 - rd (rd a * 4)) = Fin (rd (8 - rd (rd a * 4)))"
    using m0 m5 by (intro fl_small) simp
  show "js_sub (Fin 8) (js_mul (fl a) (Fin 4)) = Fin (rd (8 - rd (rd a * 4)))"
    by (simp add: js_sub_def f1 f2 f3)
  have "(1::real) / 2 ^ 54 * 4 + 1 / 2 ^ 51 + 1 / 2 ^ 50 \<le> 1 / 2 ^ 49" by simp
  with e1 e2 e3 show "\<bar>rd (8 - rd (rd a * 4)) - (8 - 4 * a)\<bar> \<le> 1 / 2 ^ 49"
    by linarith
  have "rd (8 - rd (rd a * 4)) \<le> rd 8"
    using m0 m5 by (intro rd_mono_nonneg) simp_all
  also have "rd 8 = 8" using rd_int [of 8] by simp
  finally show "rd (8 - rd (rd a * 4)) \<le> 8" .
  show "0 \<le> rd (rd a * 4)" by (rule m0)
  show "rd (rd a * 4) \<le> 5" by (rule m5)
qed

lemma radius_chain_mono:
  assumes "0 \<le> a" and "a \<le> b" and "b < 1"
  shows "rd (8 - rd (rd b * 4)) \<le> rd (8 - rd (rd a * 4))"
proof -
  have "rd a \<le> rd b" by (rule rd_mono_nonneg [OF assms(1,2)])
  then have "rd a * 4 \<le> rd b * 4" by simp
  moreover have "0 \<le> rd a * 4" using rd_nonneg [OF assms(1)] by simp
  ultimately have "rd (rd a * 4) \<le> rd (rd b * 4)" by (intro rd_mono_nonneg)
  then have "8 - rd (rd b * 4) \<le> 8 - rd (rd a * 4)" by simp
  moreover have "0 \<le> 8 - rd (rd b * 4)"
    using radius_chain(5) [of b] assms by simp
  ultimately show ?thesis by (intro rd_mono_nonneg)
qed

lemma radius_at_zero: "js_sub (Fin 8) (js_mul (fl 0) (Fin 4)) = Fin 8"
proof -
  have "rd 0 = 0" by (simp add: rd_def)
  moreover have "rd 8 = 8" using rd_int [of 8] by simp
  ultimately show ?thesis using radius_chain(1) [of 0] by simp
qed

lemma radiusScale_Fin: "l \<noteq> 0 \<Longrightarrow> radiusScale (Fin k) l = fl (k / of_int l)"
  by (simp add: radiusScale_def)

lemma spiralRadius_exact:
  assumes "0 \<le> k" and "k < 2 ^ 47"
  shows "spiralRadius (Fin (of_int k)) = Fin (40 + 60 * of_int k)"
proof -
  have "(2::int) ^ 47 = 140737488355328" by simp
  with assms have b1: "\<bar>k * 60\<bar> < 2 ^ 53" and b2: "\<bar>40 + k * 60\<bar> < 2 ^ 53" by simp_all
  have "js_mul (Fin (of_int k)) (Fin 60) = fl (of_int (k * 60))" by simp
  also have "\<dots> = Fin (of_int (k * 60))" by (rule fl_int [OF b1])
  finally have m: "js_mul (Fin (of_int k)) (Fin 60) = Fin (of_int k * 60)" by simp
  have "js_add (Fin 40) (Fin (of_int k * 60)) = fl (of_int (40 + k * 60))" by simp
  also have "\<dots> = Fin (of_int (40 + k * 60))" by (rule fl_int [OF b2])
  finally have a: "js_add (Fin 40) (Fin (of_int k * 60)) = Fin (40 + 60 * of_int k)" by simp
  show ?thesis by (simp only: spiralRadius_def m a)
qed

section \<open>Radii of the particles\<close>

lemma particle_radius_pos:
  assumes "0 < l"
  shows "radius (particle rnd x y n l i)
           = Fin (rd (8 - rd (rd (of_int (int i mod l) / of_int l) * 4)))"
    and "\<bar>rd (8 - rd (rd (of_int (int i mod l) / of_int l) * 4))
           - (8 - 4 * (of_int (int i mod l) / of_int l))\<bar> \<le> 1 / 2 ^ 49"
    and "rd (8 - rd (rd (of_int (int i mod l) / of_int l) * 4)) \<le> 8"
proof -
  define a :: real where "a = of_int (int i mod l) / of_int l"
  have a0: "0 \<le> a" using assms by (simp add: a_def)
  have "int i mod l < l" using assms by simp
  then have "real_of_int (int i mod l) < real_of_int l" by linarith
  then have a1: "a < 1" using assms by (simp add: a_def)
  have lnz: "l \<noteq> 0" using assms by simp
  have "radius (particle rnd x y n l i) = js_sub (Fin 8) (js_mul (fl a) (Fin 4))"
    by (simp add: layerIndex_pos [OF assms] radiusScale_Fin [OF lnz] a_def)
  with radius_chain [OF a0 a1]
  show "radius (particle rnd x y n l i)
           = Fin (rd (8 - rd (rd (of_int (int i mod l) / of_int l) * 4)))"
    and "\<bar>rd (8 - rd (rd (of_int (int i mod l) / of_int l) * 4))
           - (8 - 4 * (of_int (int i mod l) / of_int l))\<bar> \<le> 1 / 2 ^ 49"
    and "rd (8 - rd (rd (of_int (int i mod l) / of_int l) * 4)) \<le> 8"
    by (simp_all add: a_def)
qed

lemma particle_radius_zero:
  assumes "0 < l" and "int i mod l = 0"
  shows "radius (particle rnd x y n l i) = Fin 8"
proof -
  have lnz: "l \<noteq> 0" using assms by simp
  show ?thesis
    by (simp add: layerIndex_pos [OF assms(1)] radiusScale_Fin [OF lnz] assms(2) radius_at_zero)
qed

lemma particle_radius_mono:
  assumes "0 < l" and "int i mod l < int j mod l"
  shows "rd (8 - rd (rd (of_int (int j mod l) / of_int l) * 4))
           \<le> rd (8 - rd (rd (of_int (int i mod l) / of_int l) * 4))"
proof -
  have lp: "0 < real_of_int l" using assms(1) by simp
  have "int j mod l < l" using assms(1) by simp
  then have "real_of_int (int j mod l) < real_of_int l" by linarith
  then have b1: "real_of_int (int j mod l) / real_of_int l < 1" using lp by simp
  have a0: "0 \<le> real_of_int (int i mod l) / real_of_int l" using assms(1) by simp
  have "real_of_int (int i mod l) \<le> real_of_int (int j mod l)" using assms(2) by simp
  then have ab: "real_of_int (int i mod l) / real_of_int l \<le> real_of_int (int j mod l) / real_of_int l"
    using lp by (simp add: divide_right_mono)
  show ?thesis by (rule radius_chain_mono [OF a0 ab b1])
qed

lemma particle_radius_strict:
  assumes "0 < l" and "l \<le> 2 ^ 47" and "int i mod l < int j mod l"
  shows "rd (8 - rd (rd (of_int (int j mod l) / of_int l) * 4))
           < rd (8 - rd (rd (of_int (int i mod l) / of_int l) * 4))"
proof -
  define a :: real where "a = of_int (int i mod l) / of_int l"
  define b :: real where "b = of_int (int j mod l) / of_int l"
  have lp: "0 < real_of_int l" using assms(1) by simp
  have "real_of_int l \<le> 2 ^ 47" using assms(2)
    by (metis of_int_le_numeral_power_cancel_iff)
  then have il: "1 / 2 ^ 47 \<le> 1 / real_of_int l" using lp by (simp add: frac_le)
  have "int i mod l + 1 \<le> int j mod l" using assms(3) by simp
  then have "real_of_int (int i mod l) + 1 \<le> real_of_int (int j mod l)" by linarith
  then have "(real_of_int (int i mod l) + 1) / real_of_int l \<le> real_of_int (int j mod l) / real_of_int l"
    using lp by (simp add: divide_right_mono)
  then have "a + 1 / real_of_int l \<le> b" by (simp add: a_def b_def add_divide_distrib)
  with il have ab: "a + 1 / 2 ^ 47 \<le> b" by linarith
  from particle_radius_pos(2) [OF assms(1), where i = i] particle_radius_pos(2) [OF assms(1), where i = j]
  have ea: "\<bar>rd (8 - rd (rd a * 4)) - (8 - 4 * a)\<bar> \<le> 1 / 2 ^ 49"
    and eb: "\<bar>rd (8 - rd (rd b * 4)) - (8 - 4 * b)\<bar> \<le> 1 / 2 ^ 49"
    by (simp_all add: a_def b_def)
  have "(2::real) / 2 ^ 49 < 4 / 2 ^ 47" by simp
  with ab ea eb have "rd (8 - rd (rd b * 4)) < rd (8 - rd (rd a * 4))" by linarith
  then show ?thesis by (simp add: a_def b_def)
qed

text \<open>
  Claim C8, as the code has it. For \<open>spiralLayers = l > 0\<close> the visual radius of a
  particle is \<open>8 - 4 * (layer / l)\<close> evaluated in double arithmetic: it is within
  \<open>2 ^ -49\<close> of the exact value, at most 8, exactly 8 on layer 0, and it does not
  increase with the layer; for \<open>l \<le> 2 ^ 47\<close> it is strictly decreasing in the layer.
  The spiral radius (it enters the particle's \<open>x\<close> and \<open>z\<close>) is exactly
  \<open>40 + 60 * layer\<close> on the layers below \<open>2 ^ 47\<close>, and strictly increasing in the layer
  there.
\<close>

theorem tornado_radii:
  assumes "typed_config config = Some (x, y, n, l)" and "0 < l"
  shows "\<exists>r. generateTornadoEffect rnd now config = Returns r
           \<and> length (particles r) = nat n
           \<and> (\<forall>i < nat n.
                  layer (particles r ! i) = Fin (of_int (int i mod l))
                  \<and> px (particles r ! i)
                      = js_add x (js_mul (js_cos (angle i n)) (spiralRadius (layer (particles r ! i))))
                  \<and> pz (particles r ! i)
                      = js_mul (js_sin (angle i n)) (spiralRadius (layer (particles r ! i)))
                  \<and> (int i mod l < 2 ^ 47 \<longrightarrow>
                        spiralRadius (layer (particles r ! i))
                          = Fin (40 + 60 * of_int (int i mod l)))
                  \<and> (\<exists>v. radius (particles r ! i) = Fin v
                         \<and> \<bar>v - (8 - 4 * (of_int (int i mod l) / of_int l))\<bar> \<le> 1 / 2 ^ 49
                         \<and> v \<le> 8)
                  \<and> (int i mod l = 0 \<longrightarrow> radius (particles r ! i) = Fin 8))
           \<and> (\<forall>i j. i < nat n \<longrightarrow> j < nat n \<longrightarrow> int i mod l < int j mod l \<longrightarrow>
                  (\<exists>a b. radius (particles r ! i) = Fin a
                        \<and> radius (particles r ! j) = Fin b \<and> b \<le> a)
                  \<and> (int j mod l < 2 ^ 47 \<longrightarrow>
                        (\<exists>a b. spiralRadius (layer (particles r ! i)) = Fin a
                              \<and> spiralRadius (layer (particles r ! j)) = Fin b \<and> a < b))
                  \<and> (l \<le> 2 ^ 47 \<longrightarrow>
                        (\<exists>a b. radius (particles r ! i) = Fin a
                              \<and> radius (particles r ! j) = Fin b \<and> b < a)))"
proof -
  from generate_typed [OF assms(1)] obtain r where
    r: "generateTornadoEffect rnd now config = Returns r"
       "particles r = map (particle rnd x y n l) [0..<nat n]" by blast
  have len: "length (particles r) = nat n" by (simp add: r(2))
  have nth: "\<And>i. i < nat n \<Longrightarrow> particles r ! i = particle rnd x y n l i"
    by (simp add: r(2))
  have sp: "\<And>i. int i mod l < 2 ^ 47 \<Longrightarrow>
              spiralRadius (Fin (of_int (int i mod l))) = Fin (40 + 60 * of_int (int i mod l))"
  proof -
    fix i assume b: "int i mod l < 2 ^ 47"
    have "0 \<le> int i mod l" using assms(2) by simp
    from spiralRadius_exact [OF this b]
    show "spiralRadius (Fin (of_int (int i mod l))) = Fin (40 + 60 * of_int (int i mod l))" .
  qed
  have each: "\<forall>i < nat n.
                  layer (particles r ! i) = Fin (of_int (int i mod l))
                  \<and> px (particles r ! i)
                      = js_add x (js_mul (js_cos (angle i n)) (spiralRadius (layer (particles r ! i))))
                  \<and> pz (particles r ! i)
                      = js_mul (js_sin (angle i n)) (spiralRadius (layer (particles r ! i)))
                  \<and> (int i mod l < 2 ^ 47 \<longrightarrow>
                        spiralRadius (layer (particles r ! i))
                          = Fin (40 + 60 * of_int (int i mod l)))
                  \<and> (\<exists>v. radius (particles r ! i) = Fin v
                         \<and> \<bar>v - (8 - 4 * (of_int (int i mod l) / of_int l))\<bar> \<le> 1 / 2 ^ 49
                         \<and> v \<le> 8)
                  \<and> (int i mod l = 0 \<longrightarrow> radius (particles r ! i) = Fin 8)"
  proof (intro allI impI)
    fix i assume i: "i < nat n"
    have a: "layer (particles r ! i) = Fin (of_int (int i mod l))"
      by (simp add: nth [OF i] layerIndex_pos [OF assms(2)])
    have b: "px (particles r ! i)
               = js_add x (js_mul (js_cos (angle i n)) (spiralRadius (layer (particles r ! i))))"
      by (simp add: nth [OF i])
    have c: "pz (particles r ! i)
               = js_mul (js_sin (angle i n)) (spiralRadius (layer (particles r ! i)))"
      by (simp add: nth [OF i])
    have d: "int i mod l < 2 ^ 47 \<longrightarrow>
               spiralRadius (layer (particles r ! i)) = Fin (40 + 60 * of_int (int i mod l))"
      using sp by (simp only: a) blast
    have e: "\<exists>v. radius (particles r ! i) = Fin v
                \<and> \<bar>v - (8 - 4 * (of_int (int i mod l) / of_int l))\<bar> \<le> 1 / 2 ^ 49
                \<and> v \<le> 8"
      using particle_radius_pos(1) [OF assms(2), where rnd = rnd and x = x and y = y and n = n and i = i]
            particle_radius_pos(2) [OF assms(2), where i = i]
            particle_radius_pos(3) [OF assms(2), where i = i]
      by (simp only: nth [OF i]) blast
    have f: "int i mod l = 0 \<longrightarrow> radius (particles r ! i) = Fin 8"
      using particle_radius_zero [OF assms(2), where i = i and rnd = rnd and x = x and y = y and n = n]
      by (simp only: nth [OF i]) blast
    from a b c d e f
    show "layer (particles r ! i) = Fin (of_int (int i mod l))
                  \<and> px (particles r ! i)
                      = js_add x (js_mul (js_cos (angle i n)) (spiralRadius (layer (particles r ! i))))
                  \<and> pz (particles r ! i)
                      = js_mul (js_sin (angle i n)) (spiralRadius (layer (particles r ! i)))
                  \<and> (int i mod l < 2 ^ 47 \<longrightarrow>
                        spiralRadius (layer (particles r ! i))
                          = Fin (40 + 60 * of_int (int i mod l)))
                  \<and> (\<exists>v. radius (particles r ! i) = Fin v
                         \<and> \<bar>v - (8 - 4 * (of_int (int i mod l) / of_int l))\<bar> \<le> 1 / 2 ^ 49
                         \<and> v \<le> 8)
                  \<and> (int i mod l = 0 \<longrightarrow> radius (particles r ! i) = Fin 8)"
      by (intro conjI)
  qed
  have mono: "\<forall>i j. i < nat n \<longrightarrow> j < nat n \<longrightarrow> int i mod l < int j mod l \<longrightarrow>
                  (\<exists>a b. radius (particles r ! i) = Fin a
                        \<and> radius (particles r ! j) = Fin b \<and> b \<le> a)
                  \<and> (int j mod l < 2 ^ 47 \<longrightarrow>
                        (\<exists>a b. spiralRadius (layer (particles r ! i)) = Fin a
                              \<and> spiralRadius (layer (particles r ! j)) = Fin b \<and> a < b))
                  \<and> (l \<le> 2 ^ 47 \<longrightarrow>
                        (\<exists>a b. radius (particles r ! i) = Fin a
                              \<and> radius (particles r ! j) = Fin b \<and> b < a))"
  proof (intro allI impI)
    fix i j
    assume i: "i < nat n" and j: "j < nat n" and lt: "int i mod l < int j mod l"
    have ri: "radius (particles r ! i)
                = Fin (rd (8 - rd (rd (of_int (int i mod l) / of_int l) * 4)))"
      by (simp only: nth [OF i] particle_radius_pos(1) [OF assms(2)])
    have rj: "radius (particles r ! j)
                = Fin (rd (8 - rd (rd (of_int (int j mod l) / of_int l) * 4)))"
      by (simp only: nth [OF j] particle_radius_pos(1) [OF assms(2)])
    have li: "layer (particles r ! i) = Fin (of_int (int i mod l))"
      by (simp add: nth [OF i] layerIndex_pos [OF assms(2)])
    have lj: "layer (particles r ! j) = Fin (of_int (int j mod l))"
      by (simp add: nth [OF j] layerIndex_pos [OF assms(2)])
    have w: "\<exists>a b. radius (particles r ! i) = Fin a
                        \<and> radius (particles r ! j) = Fin b \<and> b \<le> a"
      using ri rj particle_radius_mono [OF assms(2) lt] by blast
    have s1: "int j mod l < 2 ^ 47 \<longrightarrow>
                        (\<exists>a b. spiralRadius (layer (particles r ! i)) = Fin a
                              \<and> spiralRadius (layer (particles r ! j)) = Fin b \<and> a < b)"
    proof
      assume bj: "int j mod l < 2 ^ 47"
      with lt have bi: "int i mod l < 2 ^ 47" by linarith
      have "(40::real) + 60 * of_int (int i mod l) < 40 + 60 * of_int (int j mod l)"
        using lt by simp
      with sp [OF bi] sp [OF bj] li lj
      show "\<exists>a b. spiralRadius (layer (particles r ! i)) = Fin a
                              \<and> spiralRadius (layer (particles r ! j)) = Fin b \<and> a < b"
        by (simp only:) blast
    qed
    have s2: "l \<le> 2 ^ 47 \<longrightarrow>
                        (\<exists>a b. radius (particles r ! i) = Fin a
                              \<and> radius (particles r ! j) = Fin b \<and> b < a)"
    proof
      assume l47: "l \<le> 2 ^ 47"
      show "\<exists>a b. radius (particles r ! i) = Fin a
                              \<and> radius (particles r ! j) = Fin b \<and> b < a"
        using ri rj particle_radius_strict [OF assms(2) l47 lt] by blast
    qed
    from w s1 s2
    show "(\<exists>a b. radius (particles r ! i) = Fin a
                        \<and> radius (particles r ! j) = Fin b \<and> b \<le> a)
                  \<and> (int j mod l < 2 ^ 47 \<longrightarrow>
                        (\<exists>a b. spiralRadius (layer (particles r ! i)) = Fin a
                              \<and> spiralRadius (layer (particles r ! j)) = Fin b \<and> a < b))
                  \<and> (l \<le> 2 ^ 47 \<longrightarrow>
                        (\<exists>a b. radius (particles r ! i) = Fin a
                              \<and> radius (particles r ! j) = Fin b \<and> b < a))"
      by (intro conjI)
  qed
  show ?thesis by (intro exI [of _ r] conjI) (rule r(1) len each mono)+
qed

theorem tornado_radii_witness:
  "typed_config (Some example_config) = Some (Fin 100, Fin 200, 3, 2) \<and> (0::int) < 2
   \<and> (2::int) \<le> 2 ^ 47 \<and> int 0 mod 2 < 2 ^ 47 \<and> int 1 mod 2 < 2 ^ 47
   \<and> int 0 mod 2 < int 1 mod 2
   \<and> (\<exists>r. generateTornadoEffect (\<lambda>i k. 1 / 2) (\<lambda>k. int k) (Some example_config) = Returns r
         \<and> length (particles r) = 3
         \<and> spiralRadius (layer (particles r ! 0)) = Fin 40
         \<and> spiralRadius (layer (particles r ! 1)) = Fin 100
         \<and> radius (particles r ! 0) = Fin 8
         \<and> (\<exists>a b. radius (particles r ! 0) = Fin a \<and> radius (particles r ! 1) = Fin b \<and> b < a))"
proof -
  have l: "(0::int) < 2" by simp
  have l47: "(2::int) \<le> 2 ^ 47" by simp
  have i0: "(0::nat) < nat 3" and i1: "(1::nat) < nat 3" by simp_all
  have k0: "int 0 mod 2 < 2 ^ 47" and k1: "int 1 mod 2 < 2 ^ 47" by simp_all
  have lt: "int 0 mod 2 < int 1 mod 2" by simp
  have "\<exists>r. generateTornadoEffect (\<lambda>i k. 1 / 2) (\<lambda>k. int k) (Some example_config) = Returns r
         \<and> length (particles r) = 3
         \<and> spiralRadius (layer (particles r ! 0)) = Fin 40
         \<and> spiralRadius (layer (particles r ! 1)) = Fin 100
         \<and> radius (particles r ! 0) = Fin 8
         \<and> (\<exists>a b. radius (particles r ! 0) = Fin a \<and> radius (particles r ! 1) = Fin b \<and> b < a)"
    using tornado_radii [OF example_typed l, of "\<lambda>i k. 1 / 2" "\<lambda>k. int k"]
  proof (elim exE conjE, goal_cases)
    case (1 r)
    have len: "length (particles r) = 3" using 1(2) by simp
    note c0 = 1(3) [rule_format, OF i0, THEN conjunct2, THEN conjunct2, THEN conjunct2]
    note c1 = 1(3) [rule_format, OF i1, THEN conjunct2, THEN conjunct2, THEN conjunct2]
    from c0 [THEN conjunct1, rule_format, OF k0]
    have a0: "spiralRadius (layer (particles r ! 0)) = Fin 40" by simp
    from c0 [THEN conjunct2, THEN conjunct2, rule_format]
    have a2: "radius (particles r ! 0) = Fin 8" by simp
    from c1 [THEN conjunct1, rule_format, OF k1]
    have a1: "spiralRadius (layer (particles r ! 1)) = Fin 100" by simp
    have a3: "\<exists>a b. radius (particles r ! 0) = Fin a \<and> radius (particles r ! 1) = Fin b \<and> b < a"
      by (rule 1(4) [rule_format, OF i0 i1 lt, THEN conjunct2, THEN conjunct2, rule_format, OF l47])
    show ?case by (intro exI [of _ r] conjI) (rule 1(1) len a0 a1 a2 a3)+
  qed
  with example_typed l l47 k0 k1 lt show ?thesis by (intro conjI)
qed

lemma big_typed:
  "typed_config (Some big_layers_config) = Some (Fin 100, Fin 200, 2, 10000000000000000)"
  by (simp add: typed_config_def get_prop_def num_field_def int_field_def)

lemma radius_collapse:
  "rd (8 - rd (rd (1 / 10000000000000000) * 4)) = 8"
proof -
  define a :: real where "a = 1 / 10000000000000000"
  have a0: "0 \<le> a" by (simp add: a_def)
  have "\<bar>a\<bar> < 1 / 2 ^ 53" by (simp add: a_def)
  from rd_err_below [OF this] have e1: "\<bar>rd a - a\<bar> \<le> 1 / 2 ^ 107" by simp
  have r0: "0 \<le> rd a" by (rule rd_nonneg [OF a0])
  have n1: "a * 4 + 4 / 2 ^ 107 < 1 / 2 ^ 51" by (simp add: a_def)
  with e1 r0 have "\<bar>rd a * 4\<bar> < 1 / 2 ^ 51" by linarith
  from rd_err_below [OF this] have e2: "\<bar>rd (rd a * 4) - rd a * 4\<bar> \<le> 1 / 2 ^ 105" by simp
  have m0: "0 \<le> rd (rd a * 4)" using r0 by (intro rd_nonneg) simp
  have n2: "a * 4 + 4 / 2 ^ 107 + 1 / 2 ^ 105 < 1 / 2 ^ 51" by (simp add: a_def)
  with e1 e2 have m1: "rd (rd a * 4) < 1 / 2 ^ 51" by linarith
  from rd_8_minus [OF m0 m1] show ?thesis by (simp add: a_def)
qed

text \<open>
  Claim C8 as stated fails: on \<open>10 ^ 16\<close> layers the particles of layer 0 and of layer 1
  both have the visual radius 8, since \<open>8 - 4e-16\<close> rounds to 8.
\<close>

theorem tornado_radii_counterexample:
  "(case generateTornadoEffect (\<lambda>i k. 1 / 2) (\<lambda>k. int k) (Some big_layers_config) of
      Returns r \<Rightarrow>
        map layer (particles r) = [Fin 0, Fin 1] \<and> map radius (particles r) = [Fin 8, Fin 8]
    | Throws ex \<Rightarrow> False
    | Unmodelled \<Rightarrow> False)"
proof -
  have l: "(0::int) < 10000000000000000" by simp
  from generate_typed [OF big_typed, of "\<lambda>i k. 1 / 2" "\<lambda>k. int k"] obtain r where
    r: "generateTornadoEffect (\<lambda>i k. 1 / 2) (\<lambda>k. int k) (Some big_layers_config) = Returns r"
       "particles r = map (particle (\<lambda>i k. 1 / 2) (Fin 100) (Fin 200) 2 10000000000000000) [0..<nat 2]"
    by blast
  have u: "[0..<nat 2] = [0, 1]" by (simp add: upt_rec)
  have p: "particles r = [particle (\<lambda>i k. 1 / 2) (Fin 100) (Fin 200) 2 10000000000000000 0,
                          particle (\<lambda>i k. 1 / 2) (Fin 100) (Fin 200) 2 10000000000000000 1]"
    by (simp only: r(2) u list.map)
  have la: "map layer (particles r) = [Fin 0, Fin 1]"
    by (simp add: p layerIndex_pos [OF l])
  have r0: "radius (particle (\<lambda>i k. 1 / 2) (Fin 100) (Fin 200) 2 10000000000000000 0) = Fin 8"
    by (rule particle_radius_zero [OF l]) simp
  have "radius (particle (\<lambda>i k. 1 / 2) (Fin 100) (Fin 200) 2 10000000000000000 1)
          = Fin (rd (8 - rd (rd (of_int (int 1 mod 10000000000000000) / of_int 10000000000000000) * 4)))"
    by (rule particle_radius_pos(1) [OF l])
  also have "\<dots> = Fin 8" using radius_collapse by simp
  finally have r1: "radius (particle (\<lambda>i k. 1 / 2) (Fin 100) (Fin 200) 2 10000000000000000 1) = Fin 8" .
  have ra: "map radius (particles r) = [Fin 8, Fin 8]"
    by (simp only: p list.map r0 r1)
  show ?thesis by (simp only: r(1) outcome.case la ra)
qed

section \<open>Properties of the text\<close>

lemma get_prop_JObj: "get_prop (Some (JObj kvs)) k = Inr (map_of kvs k)"
  by (simp add: get_prop_def)

lemma read_prop_JObj: "read_prop (Some (JObj kvs)) k = map_of kvs k"
  by (simp add: read_prop_def get_prop_def)

lemma map_of_opt_field:
  "k \<noteq> k' \<Longrightarrow> map_of (opt_field k' v @ rest) k = map_of rest k"
  by (cases v) (simp_all add: opt_field_def)

lemma stringify_data:
  "read_prop (Some (stringify (EffectRendered i t d ts))) ''data'' = Some (effect_json d)"
  by (cases i) (simp_all add: read_prop_JObj opt_field_def)

lemma effect_json_particles:
  "read_prop (Some (effect_json d)) ''particles'' = Some (JArr (map particle_json (particles d)))"
  by (cases "position d") (simp_all add: effect_json_def read_prop_JObj opt_field_def)

lemma wire_particle_field_reply:
  "wire_particle_field k (EffectRendered i t d ts)
     = map (\<lambda>p. read_prop (Some (particle_json p)) k) (particles d)"
  by (simp only: wire_particle_field_def stringify_data effect_json_particles) (simp add: comp_def)

lemma particle_json_layer: "read_prop (Some (particle_json p)) ''layer'' = Some (num_json (layer p))"
  by (simp add: particle_json_def read_prop_JObj)

lemma particle_json_radius: "read_prop (Some (particle_json p)) ''radius'' = Some (num_json (radius p))"
  by (simp add: particle_json_def read_prop_JObj)

lemma stringify_renderTime:
  "read_prop (Some (stringify (EffectRendered i t d ts))) ''renderTime''
     = Some (JNum (Fin (of_int t)))"
  by (cases i) (simp_all add: read_prop_JObj opt_field_def)

lemma stringify_broadcast:
  "read_prop (Some (stringify (EffectBroadcast pos cfg ts))) ''data'' = None"
  "read_prop (Some (stringify (EffectBroadcast pos cfg ts))) ''position''
     = map_option stringify_json pos"
  "read_prop (Some (stringify (EffectBroadcast pos cfg ts))) ''config''
     = map_option stringify_json cfg"
  by (cases pos; cases cfg; simp add: read_prop_JObj opt_field_def)+

section \<open>Properties of the message handler\<close>

lemma forEach_broadcast_eq:
  "forEach_broadcast s ws m cs
     = map (\<lambda>c. (c, m)) (filter (\<lambda>c. c \<noteq> ws \<and> readyState s c = OPEN) cs)"
  by (induction cs) simp_all

lemma forEach_broadcast_counter [simp]:
  "forEach_broadcast (s\<lparr>messageCount := k\<rparr>) ws m cs = forEach_broadcast s ws m cs"
  by (simp add: forEach_broadcast_eq)

lemma try_block_counter [simp]:
  "try_block e (s\<lparr>messageCount := k\<rparr>) ws data = try_block e s ws data"
  by (simp add: try_block_def Let_def split: option.splits sum.splits outcome.splits)

lemma received_broadcast:
  assumes "distinct cs"
  shows "received b (forEach_broadcast s ws m cs)
           = (if b \<in> set cs \<and> b \<noteq> ws \<and> readyState s b = OPEN then [m] else [])"
  using assms unfolding received_def by (induction cs) auto

lemma received_broadcast_sender: "received ws (forEach_broadcast s ws m cs) = []"
  unfolding received_def by (induction cs) auto

lemma received_Cons:
  "received b ((c, m) # out) = (if c = b then m # received b out else received b out)"
  by (simp add: received_def)

lemma sent_particles_broadcast:
  "sent_particles b (forEach_broadcast s ws (EffectBroadcast p c t) cs) = []"
  unfolding sent_particles_def received_def by (induction cs) auto

lemma sent_particles_Cons:
  "sent_particles b ((c, m) # out)
     = (if c = b then rendered_particles m @ sent_particles b out else sent_particles b out)"
  by (simp add: sent_particles_def received_def)

lemma broadcast_recipients:
  "(c, m') \<in> set (forEach_broadcast s ws m cs)
     \<Longrightarrow> c \<in> set cs \<and> c \<noteq> ws \<and> readyState s c = OPEN \<and> m' = m"
  by (auto simp: forEach_broadcast_eq)

lemma onMessage_state: "fst (onMessage e ws data s) = s\<lparr>messageCount := messageCount s + 1\<rparr>"
  by (simp add: onMessage_def Let_def)

lemma onMessage_sends:
  "snd (onMessage e ws data s)
     = (case try_block e s ws data of
          Returns out \<Rightarrow> Some out | Throws _ \<Rightarrow> Some [] | Unmodelled \<Rightarrow> None)"
  by (simp add: onMessage_def Let_def)

lemma try_block_render:
  assumes "JSON_parse e data = Some parsed"
    and "get_prop (Some parsed) ''command'' = Inr (Some (JStr ''render_effect''))"
    and "get_prop (Some parsed) ''effectType'' = Inr (Some (JStr ''fire_tornado''))"
    and "generateTornadoEffect (Math_random e) (Date_now e) (read_prop (Some parsed) ''config'')
           = Returns r"
  shows "try_block e s ws data =
           Returns ((ws, EffectRendered (read_prop (Some parsed) ''effectId'') (renderTime r) r
                           (Date_now e 2))
                    # forEach_broadcast s ws
                        (EffectBroadcast (read_prop (read_prop (Some parsed) ''config'') ''position'')
                           (read_prop (read_prop (Some parsed) ''config'') ''parameters'')
                           (Date_now e 3))
                        (wss_clients s))"
  using assms by (simp add: try_block_def read_prop_def Let_def)

text \<open>
  Claim C2, as the code has it. A render request (\<open>command\<close> \<open>render_effect\<close>,
  \<open>effectType\<close> \<open>fire_tornado\<close>) whose configuration has the data model's shape
  (\<open>position.x\<close> and \<open>position.y\<close> numbers, \<open>particleCount\<close> and \<open>spiralLayers\<close>
  integers), from socket \<open>ws\<close>: \<open>ws\<close> is sent exactly one message, the
  \<open>effect_rendered\<close> reply with the full particle list and the render duration, and no
  broadcast; every other socket of \<open>wss.clients\<close> that is open is sent exactly one
  message, the \<open>effect_broadcast\<close> with \<open>config.position\<close> and
  \<open>config.parameters\<close> and no particle data; any other socket is sent nothing.
\<close>

theorem render_reply_and_broadcast:
  assumes "JSON_parse e data = Some parsed"
    and "get_prop (Some parsed) ''command'' = Inr (Some (JStr ''render_effect''))"
    and "get_prop (Some parsed) ''effectType'' = Inr (Some (JStr ''fire_tornado''))"
    and "typed_config (read_prop (Some parsed) ''config'') = Some (x, y, n, l)"
    and "distinct (wss_clients s)"
  shows "\<exists>r out.
           generateTornadoEffect (Math_random e) (Date_now e) (read_prop (Some parsed) ''config'')
             = Returns r
           \<and> length (particles r) = nat n
           \<and> renderTime r = Date_now e 1 - Date_now e 0
           \<and> snd (onMessage e ws data s) = Some out
           \<and> received ws out
               = [EffectRendered (read_prop (Some parsed) ''effectId'')
                    (Date_now e 1 - Date_now e 0) r (Date_now e 2)]
           \<and> sent_particles ws out = particles r
           \<and> (\<forall>b. b \<noteq> ws \<longrightarrow>
                  received b out
                    = (if b \<in> set (wss_clients s) \<and> readyState s b = OPEN
                       then [EffectBroadcast
                               (read_prop (read_prop (Some parsed) ''config'') ''position'')
                               (read_prop (read_prop (Some parsed) ''config'') ''parameters'')
                               (Date_now e 3)]
                       else [])
                  \<and> sent_particles b out = [])
           \<and> read_prop
                 (read_prop
                    (Some (stringify
                             (EffectRendered (read_prop (Some parsed) ''effectId'')
                                (Date_now e 1 - Date_now e 0) r (Date_now e 2))))
                    ''data'')
                 ''particles''
               = Some (JArr (map particle_json (particles r)))
           \<and> read_prop
                 (Some (stringify
                          (EffectRendered (read_prop (Some parsed) ''effectId'')
                             (Date_now e 1 - Date_now e 0) r (Date_now e 2))))
                 ''renderTime''
               = Some (JNum (Fin (of_int (Date_now e 1 - Date_now e 0))))
           \<and> read_prop
                 (Some (stringify
                          (EffectBroadcast
                             (read_prop (read_prop (Some parsed) ''config'') ''position'')
                             (read_prop (read_prop (Some parsed) ''config'') ''parameters'')
                             (Date_now e 3))))
                 ''data''
               = None
           \<and> read_prop
                 (Some (stringify
                          (EffectBroadcast
                             (read_prop (read_prop (Some parsed) ''config'') ''position'')
                             (read_prop (read_prop (Some parsed) ''config'') ''parameters'')
                             (Date_now e 3))))
                 ''position''
               = map_option stringify_json
                   (read_prop (read_prop (Some parsed) ''config'') ''position'')
           \<and> read_prop
                 (Some (stringify
                          (EffectBroadcast
                             (read_prop (read_prop (Some parsed) ''config'') ''position'')
                             (read_prop (read_prop (Some parsed) ''config'') ''parameters'')
                             (Date_now e 3))))
                 ''config''
               = map_option stringify_json
                   (read_prop (read_prop (Some parsed) ''config'') ''parameters'')"
proof -
  let ?cfg = "read_prop (Some parsed) ''config''"
  let ?bm = "EffectBroadcast (read_prop ?cfg ''position'') (read_prop ?cfg ''parameters'')
               (Date_now e 3)"
  from generate_typed [OF assms(4)] obtain r where
    r: "generateTornadoEffect (Math_random e) (Date_now e) ?cfg = Returns r"
       "particles r = map (particle (Math_random e) x y n l) [0..<nat n]"
       "renderTime r = Date_now e 1 - Date_now e 0" by blast
  define out where
    "out = (ws, EffectRendered (read_prop (Some parsed) ''effectId'') (renderTime r) r (Date_now e 2))
           # forEach_broadcast s ws ?bm (wss_clients s)"
  have w1: "read_prop
              (read_prop
                 (Some (stringify
                          (EffectRendered (read_prop (Some parsed) ''effectId'')
                             (Date_now e 1 - Date_now e 0) r (Date_now e 2))))
                 ''data'')
              ''particles''
            = Some (JArr (map particle_json (particles r)))"
    by (simp only: stringify_data effect_json_particles)
  note w2 = stringify_renderTime
              [of "read_prop (Some parsed) ''effectId''" "Date_now e 1 - Date_now e 0" r
                  "Date_now e 2"]
  note w3 = stringify_broadcast
              [of "read_prop ?cfg ''position''" "read_prop ?cfg ''parameters''" "Date_now e 3"]
  have tb: "try_block e s ws data = Returns out"
    unfolding out_def by (rule try_block_render [OF assms(1,2,3) r(1)])
  have s: "snd (onMessage e ws data s) = Some out"
    by (simp add: onMessage_sends tb)
  have len: "length (particles r) = nat n" by (simp add: r(2))
  have a: "received ws out
               = [EffectRendered (read_prop (Some parsed) ''effectId'')
                    (Date_now e 1 - Date_now e 0) r (Date_now e 2)]"
    by (simp add: out_def received_Cons received_broadcast_sender r(3))
  have p: "sent_particles ws out = particles r"
    by (simp add: out_def sent_particles_Cons sent_particles_broadcast)
  have b: "\<forall>b. b \<noteq> ws \<longrightarrow>
                  received b out
                    = (if b \<in> set (wss_clients s) \<and> readyState s b = OPEN then [?bm] else [])
                  \<and> sent_particles b out = []"
    by (simp add: out_def received_Cons received_broadcast [OF assms(5)]
          sent_particles_Cons sent_particles_broadcast)
  show ?thesis
    by (intro exI [of _ r] exI [of _ out] conjI) (rule r(1) len r(3) s a p b w1 w2 w3)+
qed

lemma example_parsed: "JSON_parse example_env example_text = Some example_message"
  by simp

lemma example_command:
  "get_prop (Some example_message) ''command'' = Inr (Some (JStr ''render_effect''))"
  by (simp add: get_prop_def)

lemma example_effectType:
  "get_prop (Some example_message) ''effectType'' = Inr (Some (JStr ''fire_tornado''))"
  by (simp add: get_prop_def)

lemma example_message_config: "read_prop (Some example_message) ''config'' = Some example_config"
  by (simp add: read_prop_def get_prop_def)

lemma example_message_typed:
  "typed_config (read_prop (Some example_message) ''config'') = Some (Fin 100, Fin 200, 3, 2)"
  by (simp only: example_message_config example_typed)

lemma example_state_distinct: "distinct (wss_clients example_state)"
  by simp

theorem render_reply_and_broadcast_witness:
  "JSON_parse example_env example_text = Some example_message
   \<and> get_prop (Some example_message) ''command'' = Inr (Some (JStr ''render_effect''))
   \<and> get_prop (Some example_message) ''effectType'' = Inr (Some (JStr ''fire_tornado''))
   \<and> typed_config (read_prop (Some example_message) ''config'') = Some (Fin 100, Fin 200, 3, 2)
   \<and> distinct (wss_clients example_state)
   \<and> (\<exists>r out. generateTornadoEffect (\<lambda>i k. 1 / 2) (\<lambda>k. int k) (Some example_config) = Returns r
         \<and> length (particles r) = 3
         \<and> snd (onMessage example_env 0 example_text example_state) = Some out
         \<and> received 0 out = [EffectRendered (Some (JStr ''fx1'')) 1 r 2]
         \<and> received 1 out
             = [EffectBroadcast (Some (JObj [(''x'', JNum (Fin 100)), (''y'', JNum (Fin 200))]))
                  (Some (JObj [(''particleCount'', JNum (Fin 3)), (''spiralLayers'', JNum (Fin 2)),
                               (''duration'', JNum (Fin 5000)), (''colorScheme'', JStr ''fire'')]))
                  3]
         \<and> received 2 out = received 1 out
         \<and> sent_particles 0 out = particles r
         \<and> sent_particles 1 out = []
         \<and> sent_particles 2 out = [])"
proof -
  have "\<exists>r out. generateTornadoEffect (\<lambda>i k. 1 / 2) (\<lambda>k. int k) (Some example_config) = Returns r
         \<and> length (particles r) = 3
         \<and> snd (onMessage example_env 0 example_text example_state) = Some out
         \<and> received 0 out = [EffectRendered (Some (JStr ''fx1'')) 1 r 2]
         \<and> received 1 out
             = [EffectBroadcast (Some (JObj [(''x'', JNum (Fin 100)), (''y'', JNum (Fin 200))]))
                  (Some (JObj [(''particleCount'', JNum (Fin 3)), (''spiralLayers'', JNum (Fin 2)),
                               (''duration'', JNum (Fin 5000)), (''colorScheme'', JStr ''fire'')]))
                  3]
         \<and> received 2 out = received 1 out
         \<and> sent_particles 0 out = particles r
         \<and> sent_particles 1 out = []
         \<and> sent_particles 2 out = []"
    using render_reply_and_broadcast
            [OF example_parsed example_command example_effectType example_message_typed
                example_state_distinct, of 0]
  proof (elim exE conjE, goal_cases)
    case (1 r out)
    have g: "generateTornadoEffect (\<lambda>i k. 1 / 2) (\<lambda>k. int k) (Some example_config) = Returns r"
      using 1(1) by (simp add: example_message_config)
    have len: "length (particles r) = 3" using 1(2) by simp
    have a: "received 0 out = [EffectRendered (Some (JStr ''fx1'')) 1 r 2]"
      using 1(5) by (simp add: read_prop_def get_prop_def)
    have b1: "received 1 out
               = [EffectBroadcast (Some (JObj [(''x'', JNum (Fin 100)), (''y'', JNum (Fin 200))]))
                    (Some (JObj [(''particleCount'', JNum (Fin 3)), (''spiralLayers'', JNum (Fin 2)),
                                 (''duration'', JNum (Fin 5000)), (''colorScheme'', JStr ''fire'')]))
                    3]"
      using 1(7) [rule_format, of 1] by (simp add: read_prop_def get_prop_def)
    have b2: "received 2 out = received 1 out"
      using 1(7) [rule_format, of 2] 1(7) [rule_format, of 1] by simp
    have p1: "sent_particles 1 out = []" using 1(7) [rule_format, of 1] by simp
    have p2: "sent_particles 2 out = []" using 1(7) [rule_format, of 2] by simp
    show ?case
      by (intro exI [of _ r] exI [of _ out] conjI) (rule g len 1(4) a b1 b2 1(6) p1 p2)+
  qed
  with example_parsed example_command example_effectType example_message_typed
       example_state_distinct
  show ?thesis by (intro conjI)
qed

text \<open>
  Claim C2 as stated fails: a render request without \<open>config\<close> is well-formed JSON with
  the two fields of the claim; the destructuring of \<open>config\<close> in the generator throws,
  the \<open>catch\<close> logs, and neither the sender nor any other socket is sent anything.
\<close>

theorem render_without_config_counterexample:
  "JSON_parse bare_render_env bare_render_text = Some bare_render_message
   \<and> get_prop (Some bare_render_message) ''command'' = Inr (Some (JStr ''render_effect''))
   \<and> get_prop (Some bare_render_message) ''effectType'' = Inr (Some (JStr ''fire_tornado''))
   \<and> read_prop (Some bare_render_message) ''config'' = None
   \<and> generateTornadoEffect (Math_random bare_render_env) (Date_now bare_render_env) None
       = Throws TypeError
   \<and> snd (onMessage bare_render_env 0 bare_render_text example_state) = Some []
   \<and> map_option (received 0) (snd (onMessage bare_render_env 0 bare_render_text example_state))
       = Some []
   \<and> map_option (received 1) (snd (onMessage bare_render_env 0 bare_render_text example_state))
       = Some []"
  by (simp add: onMessage_sends try_block_def generateTornadoEffect_def get_prop_def read_prop_def
        received_def)

lemma try_block_malformed:
  "JSON_parse e data = None \<Longrightarrow> try_block e s ws data = Throws SyntaxError"
  by (simp add: try_block_def)

text \<open>
  Claim C4. A message that is not valid JSON: nothing is sent, the counter still goes up
  by one (it is incremented before the parse), nothing else of the state changes, so the
  socket stays in the roster, and any later message on the socket is answered as it
  would have been without the malformed one.
\<close>

theorem malformed_dropped:
  assumes "JSON_parse e data = None"
  shows "snd (onMessage e ws data s) = Some []
         \<and> fst (onMessage e ws data s) = s\<lparr>messageCount := messageCount s + 1\<rparr>
         \<and> clients (fst (onMessage e ws data s)) = clients s
         \<and> wss_clients (fst (onMessage e ws data s)) = wss_clients s
         \<and> readyState (fst (onMessage e ws data s)) = readyState s
         \<and> messageCount (fst (onMessage e ws data s)) = messageCount s + 1
         \<and> (\<forall>e' data'. snd (onMessage e' ws data' (fst (onMessage e ws data s)))
                          = snd (onMessage e' ws data' s))"
  by (simp add: onMessage_state onMessage_sends try_block_malformed [OF assms])

lemma try_block_ping:
  "try_block example_env s ws ping_text = Returns [(ws, Response (Some ping_message) True (JNum (Fin 8765)) 0)]"
  by (simp add: try_block_def get_prop_def read_prop_def PORT_def)

theorem malformed_dropped_witness:
  "JSON_parse example_env ''{'' = None
   \<and> snd (onMessage example_env 0 ''{'' example_state) = Some []
   \<and> messageCount (fst (onMessage example_env 0 ''{'' example_state)) = 1
   \<and> clients (fst (onMessage example_env 0 ''{'' example_state)) = [0, 1, 2]
   \<and> snd (onMessage example_env 0 ping_text (fst (onMessage example_env 0 ''{'' example_state)))
       = Some [(0, Response (Some ping_message) True (JNum (Fin 8765)) 0)]"
proof -
  have h: "JSON_parse example_env ''{'' = None" by simp
  note m = malformed_dropped [OF h, of 0 example_state]
  have "snd (onMessage example_env 0 ping_text example_state)
          = Some [(0, Response (Some ping_message) True (JNum (Fin 8765)) 0)]"
    by (simp only: onMessage_sends try_block_ping outcome.case)
  moreover from m have "snd (onMessage example_env 0 ping_text
                               (fst (onMessage example_env 0 ''{'' example_state)))
                          = snd (onMessage example_env 0 ping_text example_state)"
    by blast
  ultimately have "snd (onMessage example_env 0 ping_text (fst (onMessage example_env 0 ''{'' example_state)))
       = Some [(0, Response (Some ping_message) True (JNum (Fin 8765)) 0)]"
    by (rule back_subst [where P = "\<lambda>v. v = Some [(0, Response (Some ping_message) True (JNum (Fin 8765)) 0)]", OF _ sym])
  moreover from m have "snd (onMessage example_env 0 ''{'' example_state) = Some []" by blast
  moreover from m have "messageCount (fst (onMessage example_env 0 ''{'' example_state)) = 1"
    by simp
  moreover from m have "clients (fst (onMessage example_env 0 ''{'' example_state)) = [0, 1, 2]"
    by simp
  ultimately show ?thesis using h by (intro conjI)
qed

text \<open>
  Claim C9. Handling one message, whatever it is, changes nothing of the state but the
  message counter, which goes up by exactly one: the roster \<open>clients\<close>, the library's
  \<open>wss.clients\<close> and every \<open>readyState\<close> are as before.
\<close>

theorem message_frame:
  "fst (onMessage e ws data s) = s\<lparr>messageCount := messageCount s + 1\<rparr>
   \<and> clients (fst (onMessage e ws data s)) = clients s
   \<and> wss_clients (fst (onMessage e ws data s)) = wss_clients s
   \<and> readyState (fst (onMessage e ws data s)) = readyState s
   \<and> allocated (fst (onMessage e ws data s)) = allocated s
   \<and> messageCount (fst (onMessage e ws data s)) = messageCount s + 1"
  by (simp add: onMessage_state)

lemma try_block_echo:
  assumes "JSON_parse e data = Some parsed" and "parsed \<noteq> JNull"
    and "\<not> (get_prop (Some parsed) ''command'' = Inr (Some (JStr ''render_effect''))
            \<and> get_prop (Some parsed) ''effectType'' = Inr (Some (JStr ''fire_tornado'')))"
  shows "try_block e s ws data
           = Returns [(ws, Response (Some parsed) True (PORT (env_PORT e)) (Date_now e 0))]"
  using assms
  by (cases parsed) (auto simp add: try_block_def get_prop_def read_prop_def)

lemma echo_non_null:
  assumes "JSON_parse e data = Some parsed" and "parsed \<noteq> JNull"
    and "\<not> (get_prop (Some parsed) ''command'' = Inr (Some (JStr ''render_effect''))
            \<and> get_prop (Some parsed) ''effectType'' = Inr (Some (JStr ''fire_tornado'')))"
  shows "snd (onMessage e ws data s)
           = Some [(ws, Response (Some parsed) True (PORT (env_PORT e)) (Date_now e 0))]"
  by (simp only: onMessage_sends try_block_echo [OF assms] outcome.case)

text \<open>
  Claim C5. Every well-formed JSON message that is not a \<open>render_effect\<close> /
  \<open>fire_tornado\<close> request is to be answered by one \<open>response\<close> to the sender
  (\<open>echo_non_null\<close> above: so it is for every decoded value but \<open>null\<close>). The text
  \<open>null\<close> is well-formed JSON and decodes to \<open>null\<close>; reading \<open>parsed.command\<close>
  throws a TypeError inside the \<open>try\<close>, the \<open>catch\<close> logs it as a parse error, and
  the sender is sent nothing.
\<close>

theorem null_message_dropped:
  "JSON_parse example_env ''null'' = Some JNull
   \<and> get_prop (Some JNull) ''command'' = Inl TypeError
   \<and> snd (onMessage example_env 0 ''null'' example_state) = Some []
   \<and> map_option (received 0) (snd (onMessage example_env 0 ''null'' example_state)) = Some []"
  by (simp add: onMessage_sends try_block_def get_prop_def received_def)

section \<open>Properties of the roster\<close>

lemma roster_inv_init: "roster_inv init"
  by (simp add: roster_inv_def init_def)

lemma roster_inv_step:
  assumes "roster_inv s" and "can_occur s ev"
  shows "roster_inv (step e ev s)"
proof (cases ev)
  case Connection
  with assms show ?thesis
    by (auto simp: roster_inv_def onConnection_def set_add_def Let_def less_Suc_eq)
next
  case (Message ws data)
  with assms show ?thesis by (auto simp: roster_inv_def onMessage_state)
next
  case (Closing ws)
  with assms show ?thesis by (auto simp: roster_inv_def)
next
  case (Close ws)
  with assms show ?thesis
    by (auto simp: roster_inv_def onClose_def set_delete_def distinct_removeAll)
next
  case (Error ws)
  with assms show ?thesis by simp
qed

lemma length_removeAll_distinct:
  "distinct cs \<Longrightarrow> c \<in> set cs \<Longrightarrow> Suc (length (removeAll c cs)) = length cs"
  by (induction cs) (auto simp: removeAll_id)

lemma step_count:
  assumes "roster_inv s" and "can_occur s ev"
  shows "length (clients (step e ev s)) + closes [ev] = length (clients s) + accepts [ev]"
proof (cases ev)
  case Connection
  with assms show ?thesis
    by (auto simp: roster_inv_def onConnection_def set_add_def Let_def)
next
  case (Message ws data)
  then show ?thesis by (simp add: onMessage_state)
next
  case (Closing ws)
  then show ?thesis by simp
next
  case (Close ws)
  with assms have "ws \<in> set (clients s)" and "distinct (clients s)"
    by (simp_all add: roster_inv_def)
  from length_removeAll_distinct [OF this(2,1)] Close show ?thesis
    by (simp add: onClose_def set_delete_def)
next
  case (Error ws)
  then show ?thesis by simp
qed

lemma closes_Cons: "closes (ev # evs) = closes [ev] + closes evs"
  by (cases ev) simp_all

lemma accepts_Cons: "accepts (ev # evs) = accepts [ev] + accepts evs"
  by (cases ev) simp_all

lemma run_count:
  assumes "roster_inv s" and "wf_trace e s evs"
  shows "roster_inv (run e evs s)
         \<and> length (clients (run e evs s)) + closes evs = length (clients s) + accepts evs"
  using assms
proof (induction evs arbitrary: s)
  case Nil
  then show ?case by simp
next
  case (Cons ev evs)
  from Cons.prems have c: "can_occur s ev" and w: "wf_trace e (step e ev s) evs" by simp_all
  have i: "roster_inv (step e ev s)" by (rule roster_inv_step [OF Cons.prems(1) c])
  from Cons.IH [OF i w] step_count [OF Cons.prems(1) c, of e]
  show ?case
    by (simp add: closes_Cons [of ev evs] accepts_Cons [of ev evs])
qed

lemma gone_step:
  assumes "roster_inv s" and "can_occur s ev" and "gone s c"
  shows "gone (step e ev s) c"
proof (cases ev)
  case Connection
  with assms show ?thesis
    by (auto simp: gone_def onConnection_def set_add_def Let_def)
next
  case (Message ws data)
  with assms show ?thesis by (simp add: gone_def onMessage_state)
next
  case (Closing ws)
  with assms show ?thesis by (simp add: gone_def)
next
  case (Close ws)
  with assms show ?thesis by (simp add: gone_def onClose_def set_delete_def)
next
  case (Error ws)
  with assms show ?thesis by simp
qed

lemma close_gone:
  assumes "roster_inv s" and "can_occur s (Close c)"
  shows "gone (step e (Close c) s) c"
  using assms by (auto simp: gone_def roster_inv_def onClose_def set_delete_def)

lemma gone_run:
  assumes "roster_inv s" and "wf_trace e s evs" and "gone s c \<or> Close c \<in> set evs"
  shows "gone (run e evs s) c"
  using assms
proof (induction evs arbitrary: s)
  case Nil
  then show ?case by simp
next
  case (Cons ev evs)
  from Cons.prems have c: "can_occur s ev" and w: "wf_trace e (step e ev s) evs" by simp_all
  have i: "roster_inv (step e ev s)" by (rule roster_inv_step [OF Cons.prems(1) c])
  have "gone (step e ev s) c \<or> Close c \<in> set evs"
  proof (cases "gone s c")
    case True
    then show ?thesis using gone_step [OF Cons.prems(1) c] by blast
  next
    case False
    with Cons.prems(3) have "ev = Close c \<or> Close c \<in> set evs" by auto
    then show ?thesis using close_gone [OF Cons.prems(1)] c by blast
  qed
  from Cons.IH [OF i w this] show ?case by simp
qed

lemma try_block_shape:
  assumes "try_block e s ws data = Returns out"
  shows "(\<exists>m. out = [(ws, m)] \<and> msg_type m = ''response'')
         \<or> (\<exists>m bm. out = (ws, m) # forEach_broadcast s ws bm (wss_clients s)
                    \<and> msg_type m = ''effect_rendered'')"
  using assms
  by (auto simp: try_block_def Let_def split: option.splits sum.splits if_splits outcome.splits)

lemma broadcast_only_to_roster:
  assumes "snd (onMessage e ws data s) = Some out" and "(r, m) \<in> set out"
    and "msg_type m = ''effect_broadcast''"
  shows "r \<in> set (wss_clients s) \<and> r \<noteq> ws \<and> readyState s r = OPEN"
proof (cases "try_block e s ws data")
  case (Returns out')
  with assms(1) have o: "out' = out" by (simp add: onMessage_sends)
  from try_block_shape [OF Returns] o assms(2,3) show ?thesis
    by (auto dest: broadcast_recipients)
next
  case (Throws x)
  with assms(1,2) show ?thesis by (simp add: onMessage_sends)
next
  case Unmodelled
  with assms(1) show ?thesis by (simp add: onMessage_sends)
qed

text \<open>
  Claim C7. Along a run from the initial state, the roster is the set of the sockets that
  are open: after \<open>N\<close> \<open>connection\<close> events and \<open>M\<close> \<open>close\<close> events its size is
  \<open>N - M\<close> (and \<open>M \<le> N\<close>), it equals the library's \<open>wss.clients\<close>, and a socket
  that has closed is not in it and is not sent the broadcast of any effect triggered
  afterwards.
\<close>

theorem roster_bookkeeping:
  assumes "wf_trace e init evs"
  shows "length (clients (run e evs init)) = accepts evs - closes evs
         \<and> closes evs \<le> accepts evs
         \<and> distinct (clients (run e evs init))
         \<and> clients (run e evs init) = wss_clients (run e evs init)
         \<and> (\<forall>c. Close c \<in> set evs \<longrightarrow>
                c \<notin> set (clients (run e evs init))
                \<and> (\<forall>e' ws data out r m.
                      snd (onMessage e' ws data (run e evs init)) = Some out \<longrightarrow>
                      (r, m) \<in> set out \<longrightarrow> msg_type m = ''effect_broadcast'' \<longrightarrow> r \<noteq> c))"
proof -
  from run_count [OF roster_inv_init assms] have
    i: "roster_inv (run e evs init)" and
    n: "length (clients (run e evs init)) + closes evs = length (clients init) + accepts evs"
    by simp_all
  from n have n': "length (clients (run e evs init)) + closes evs = accepts evs"
    by (simp add: init_def)
  have a: "length (clients (run e evs init)) = accepts evs - closes evs" using n' by arith
  have b: "closes evs \<le> accepts evs" using n' by arith
  have c: "distinct (clients (run e evs init))" using i by (simp add: roster_inv_def)
  have d: "clients (run e evs init) = wss_clients (run e evs init)"
    using i by (simp add: roster_inv_def)
  have f: "\<forall>c. Close c \<in> set evs \<longrightarrow>
                c \<notin> set (clients (run e evs init))
                \<and> (\<forall>e' ws data out r m.
                      snd (onMessage e' ws data (run e evs init)) = Some out \<longrightarrow>
                      (r, m) \<in> set out \<longrightarrow> msg_type m = ''effect_broadcast'' \<longrightarrow> r \<noteq> c)"
  proof (intro allI impI)
    fix c assume "Close c \<in> set evs"
    then have "gone (run e evs init) c"
      using gone_run [OF roster_inv_init assms] by blast
    then have g: "c \<notin> set (wss_clients (run e evs init))" by (simp add: gone_def)
    then have "c \<notin> set (clients (run e evs init))" using d by simp
    moreover have "\<forall>e' ws data out r m.
                      snd (onMessage e' ws data (run e evs init)) = Some out \<longrightarrow>
                      (r, m) \<in> set out \<longrightarrow> msg_type m = ''effect_broadcast'' \<longrightarrow> r \<noteq> c"
      using g broadcast_only_to_roster by blast
    ultimately show "c \<notin> set (clients (run e evs init))
                \<and> (\<forall>e' ws data out r m.
                      snd (onMessage e' ws data (run e evs init)) = Some out \<longrightarrow>
                      (r, m) \<in> set out \<longrightarrow> msg_type m = ''effect_broadcast'' \<longrightarrow> r \<noteq> c)"
      by blast
  qed
  show ?thesis by (intro conjI) (rule a b c d f)+
qed

lemma example_run:
  "run example_env [Connection, Connection, Connection, Close 1] init
     = \<lparr> clients = [0, 2], messageCount = 0, wss_clients = [0, 2],
         readyState = ((\<lambda>_. CONNECTING)(0 := OPEN, 1 := OPEN, 2 := OPEN, 1 := CLOSED)),
         allocated = 3 \<rparr>"
  by (simp add: init_def onConnection_def onClose_def set_add_def set_delete_def Let_def
        numeral_2_eq_2 numeral_3_eq_3)

lemma example_wf: "wf_trace example_env init [Connection, Connection, Connection, Close 1]"
  by (simp add: init_def onConnection_def onClose_def set_add_def set_delete_def Let_def)

theorem roster_bookkeeping_witness:
  "wf_trace example_env init [Connection, Connection, Connection, Close 1]
   \<and> accepts [Connection, Connection, Connection, Close 1] = 3
   \<and> closes [Connection, Connection, Connection, Close 1] = 1
   \<and> length (clients (run example_env [Connection, Connection, Connection, Close 1] init)) = 2
   \<and> clients (run example_env [Connection, Connection, Connection, Close 1] init) = [0, 2]
   \<and> 1 \<notin> set (clients (run example_env [Connection, Connection, Connection, Close 1] init))"
proof -
  note t = roster_bookkeeping [OF example_wf]
  have a: "accepts [Connection, Connection, Connection, Close 1] = 3" by simp
  have c: "closes [Connection, Connection, Connection, Close 1] = 1" by simp
  from t have "length (clients (run example_env [Connection, Connection, Connection, Close 1] init))
                 = accepts [Connection, Connection, Connection, Close 1]
                   - closes [Connection, Connection, Connection, Close 1]"
    by (rule conjunct1)
  then have l: "length (clients (run example_env [Connection, Connection, Connection, Close 1] init)) = 2"
    by (simp only: a c)
  have m: "Close 1 \<in> set [Connection, Connection, Connection, Close 1]" by simp
  from t have "\<forall>c. Close c \<in> set [Connection, Connection, Connection, Close 1] \<longrightarrow>
                c \<notin> set (clients (run example_env [Connection, Connection, Connection, Close 1] init))
                \<and> (\<forall>e' ws data out r m.
                      snd (onMessage e' ws data (run example_env [Connection, Connection, Connection, Close 1] init)) = Some out \<longrightarrow>
                      (r, m) \<in> set out \<longrightarrow> msg_type m = ''effect_broadcast'' \<longrightarrow> r \<noteq> c)"
    by (elim conjE)
  with m have g: "1 \<notin> set (clients (run example_env [Connection, Connection, Connection, Close 1] init))"
    by blast
  have r: "clients (run example_env [Connection, Connection, Connection, Close 1] init) = [0, 2]"
    by (simp only: example_run) simp
  from example_wf a c l r g show ?thesis by (intro conjI)
qed

section \<open>Zero particle count and zero layers\<close>

lemma zero_layers_radius: "js_sub (Fin 8) (js_mul (radiusScale NaN l) (Fin 4)) = NaN"
  by (simp add: js_sub_def radiusScale_def)

lemma sent_particles_reply:
  "sent_particles ws ((ws, EffectRendered i t r ts) # forEach_broadcast s ws bm cs) = particles r"
  by (simp add: sent_particles_def received_Cons received_broadcast_sender)

text \<open>
  Claim C3, as the code has it. A render request whose configuration has the data
  model's shape (\<open>position.x\<close> and \<open>position.y\<close> numbers, \<open>particleCount\<close> and
  \<open>spiralLayers\<close> integers) and has \<open>particleCount = 0\<close> or \<open>spiralLayers = 0\<close> is
  not rejected and not guarded: the generator runs and the reply is sent, with
  \<open>particleCount\<close> particles. For \<open>particleCount = 0\<close> the loop body never runs and the
  particle list is empty; for \<open>spiralLayers = 0\<close> the layer (\<open>i % 0\<close>) and the radius
  of every particle are NaN in the effect data, and \<open>null\<close> in the text of the reply.
\<close>

theorem zero_config_not_rejected:
  assumes "JSON_parse e data = Some parsed"
    and "get_prop (Some parsed) ''command'' = Inr (Some (JStr ''render_effect''))"
    and "get_prop (Some parsed) ''effectType'' = Inr (Some (JStr ''fire_tornado''))"
    and "typed_config (read_prop (Some parsed) ''config'') = Some (x, y, n, l)"
    and "n = 0 \<or> l = 0"
  shows "\<exists>r out reply.
           generateTornadoEffect (Math_random e) (Date_now e) (read_prop (Some parsed) ''config'')
             = Returns r
           \<and> snd (onMessage e ws data s) = Some out
           \<and> reply = EffectRendered (read_prop (Some parsed) ''effectId'')
                        (Date_now e 1 - Date_now e 0) r (Date_now e 2)
           \<and> received ws out = [reply]
           \<and> sent_particles ws out = particles r
           \<and> length (particles r) = nat n
           \<and> (n = 0 \<longrightarrow> particles r = [])
           \<and> (l = 0 \<longrightarrow> (\<forall>i < nat n. layer (particles r ! i) = NaN
                                    \<and> radius (particles r ! i) = NaN))
           \<and> (l = 0 \<longrightarrow> wire_particle_field ''layer'' reply = replicate (nat n) (Some JNull)
                        \<and> wire_particle_field ''radius'' reply = replicate (nat n) (Some JNull))"
proof -
  let ?cfg = "read_prop (Some parsed) ''config''"
  let ?bm = "EffectBroadcast (read_prop ?cfg ''position'') (read_prop ?cfg ''parameters'')
               (Date_now e 3)"
  from generate_typed [OF assms(4)] obtain r where
    r: "generateTornadoEffect (Math_random e) (Date_now e) ?cfg = Returns r"
       "particles r = map (particle (Math_random e) x y n l) [0..<nat n]"
       "renderTime r = Date_now e 1 - Date_now e 0" by blast
  define reply where
    "reply = EffectRendered (read_prop (Some parsed) ''effectId'')
               (Date_now e 1 - Date_now e 0) r (Date_now e 2)"
  define out where "out = (ws, reply) # forEach_broadcast s ws ?bm (wss_clients s)"
  have tb: "try_block e s ws data = Returns out"
    unfolding out_def reply_def r(3) [symmetric]
    by (rule try_block_render [OF assms(1,2,3) r(1)])
  have s: "snd (onMessage e ws data s) = Some out"
    by (simp add: onMessage_sends tb)
  have a: "received ws out = [reply]"
    by (simp add: out_def received_Cons received_broadcast_sender)
  have p: "sent_particles ws out = particles r"
    unfolding out_def reply_def by (rule sent_particles_reply)
  have len: "length (particles r) = nat n" by (simp add: r(2))
  have z: "n = 0 \<longrightarrow> particles r = []" by (simp add: r(2))
  have nan: "l = 0 \<longrightarrow> (\<forall>i < nat n. layer (particles r ! i) = NaN
                                    \<and> radius (particles r ! i) = NaN)"
    by (simp add: r(2) layerIndex_zero zero_layers_radius)
  have wire: "l = 0 \<longrightarrow> wire_particle_field ''layer'' reply = replicate (nat n) (Some JNull)
                        \<and> wire_particle_field ''radius'' reply = replicate (nat n) (Some JNull)"
    by (simp add: reply_def wire_particle_field_reply particle_json_layer particle_json_radius
          r(2) comp_def layerIndex_zero zero_layers_radius map_replicate_const)
  show ?thesis
    by (intro exI [of _ r] exI [of _ out] exI [of _ reply] conjI)
       (rule r(1) s reply_def a p len z nan wire)+
qed

lemma zero_parsed: "JSON_parse example_env zero_layers_text = Some zero_layers_message"
  by simp

lemma zero_command:
  "get_prop (Some zero_layers_message) ''command'' = Inr (Some (JStr ''render_effect''))"
  by (simp add: get_prop_def)

lemma zero_effectType:
  "get_prop (Some zero_layers_message) ''effectType'' = Inr (Some (JStr ''fire_tornado''))"
  by (simp add: get_prop_def)

lemma zero_message_config:
  "read_prop (Some zero_layers_message) ''config'' = Some zero_layers_config"
  by (simp add: read_prop_def get_prop_def)

lemma zero_typed: "typed_config (Some zero_layers_config) = Some (Fin 100, Fin 200, 1, 0)"
  by (simp add: typed_config_def get_prop_def num_field_def int_field_def)

lemma zero_message_typed:
  "typed_config (read_prop (Some zero_layers_message) ''config'') = Some (Fin 100, Fin 200, 1, 0)"
  by (simp only: zero_message_config zero_typed)

theorem zero_config_not_rejected_witness:
  "JSON_parse example_env zero_layers_text = Some zero_layers_message
   \<and> get_prop (Some zero_layers_message) ''command'' = Inr (Some (JStr ''render_effect''))
   \<and> get_prop (Some zero_layers_message) ''effectType'' = Inr (Some (JStr ''fire_tornado''))
   \<and> typed_config (read_prop (Some zero_layers_message) ''config'') = Some (Fin 100, Fin 200, 1, 0)
   \<and> (\<exists>r out. snd (onMessage example_env 0 zero_layers_text example_state) = Some out
         \<and> received 0 out = [EffectRendered (Some (JStr ''fx2'')) 1 r 2]
         \<and> sent_particles 0 out = particles r
         \<and> length (particles r) = 1
         \<and> layer (particles r ! 0) = NaN
         \<and> radius (particles r ! 0) = NaN
         \<and> wire_particle_field ''layer'' (EffectRendered (Some (JStr ''fx2'')) 1 r 2) = [Some JNull]
         \<and> wire_particle_field ''radius'' (EffectRendered (Some (JStr ''fx2'')) 1 r 2) = [Some JNull])"
proof -
  have h: "(1::int) = 0 \<or> (0::int) = 0" by simp
  have "\<exists>r out. snd (onMessage example_env 0 zero_layers_text example_state) = Some out
         \<and> received 0 out = [EffectRendered (Some (JStr ''fx2'')) 1 r 2]
         \<and> sent_particles 0 out = particles r
         \<and> length (particles r) = 1
         \<and> layer (particles r ! 0) = NaN
         \<and> radius (particles r ! 0) = NaN
         \<and> wire_particle_field ''layer'' (EffectRendered (Some (JStr ''fx2'')) 1 r 2) = [Some JNull]
         \<and> wire_particle_field ''radius'' (EffectRendered (Some (JStr ''fx2'')) 1 r 2) = [Some JNull]"
    using zero_config_not_rejected
            [OF zero_parsed zero_command zero_effectType zero_message_typed h, of 0 example_state]
  proof (elim exE conjE, goal_cases)
    case (1 r out reply)
    have rp: "reply = EffectRendered (Some (JStr ''fx2'')) 1 r 2"
      using 1(3) by (simp add: read_prop_def get_prop_def)
    have a: "received 0 out = [EffectRendered (Some (JStr ''fx2'')) 1 r 2]"
      using 1(4) by (simp only: rp)
    have len: "length (particles r) = 1" using 1(6) by simp
    have n: "layer (particles r ! 0) = NaN" "radius (particles r ! 0) = NaN"
      using 1(8) by simp_all
    have w: "wire_particle_field ''layer'' (EffectRendered (Some (JStr ''fx2'')) 1 r 2) = [Some JNull]"
            "wire_particle_field ''radius'' (EffectRendered (Some (JStr ''fx2'')) 1 r 2) = [Some JNull]"
      using 1(9) by (simp_all add: rp)
    show ?case
      by (intro exI [of _ r] exI [of _ out] conjI) (rule 1(2) a 1(5) len n w)+
  qed
  with zero_parsed zero_command zero_effectType zero_message_typed show ?thesis
    by (intro conjI)
qed

text \<open>
  Claim C3 as stated fails: the request for one particle on zero layers is answered, the
  other two sockets get the broadcast, and the particle of the reply has NaN as its layer
  and as its radius, written as \<open>null\<close> in the text sent to the requester.
\<close>

theorem zero_layers_counterexample:
  "map_option sent_types (snd (onMessage example_env 0 zero_layers_text example_state))
     = Some [(0, ''effect_rendered''), (1, ''effect_broadcast''), (2, ''effect_broadcast'')]
   \<and> map_option (map layer \<circ> sent_particles 0)
        (snd (onMessage example_env 0 zero_layers_text example_state)) = Some [NaN]
   \<and> map_option (map radius \<circ> sent_particles 0)
        (snd (onMessage example_env 0 zero_layers_text example_state)) = Some [NaN]
   \<and> map_option (map (wire_particle_field ''layer'') \<circ> received 0)
        (snd (onMessage example_env 0 zero_layers_text example_state)) = Some [[Some JNull]]
   \<and> map_option (map (wire_particle_field ''radius'') \<circ> received 0)
        (snd (onMessage example_env 0 zero_layers_text example_state)) = Some [[Some JNull]]"
proof -
  from generate_typed [OF zero_message_typed, of "Math_random example_env" "Date_now example_env"]
  obtain r where
    r: "generateTornadoEffect (Math_random example_env) (Date_now example_env)
          (read_prop (Some zero_layers_message) ''config'') = Returns r"
       "particles r = map (particle (Math_random example_env) (Fin 100) (Fin 200) 1 0) [0..<nat 1]"
    by blast
  have p: "particles r = [particle (Math_random example_env) (Fin 100) (Fin 200) 1 0 0]"
    by (simp add: r(2))
  note tb = try_block_render [OF zero_parsed zero_command zero_effectType r(1), of example_state 0]
  have s: "snd (onMessage example_env 0 zero_layers_text example_state)
             = Some ((0, EffectRendered (read_prop (Some zero_layers_message) ''effectId'')
                           (renderTime r) r (Date_now example_env 2))
                    # forEach_broadcast example_state 0
                        (EffectBroadcast
                           (read_prop (read_prop (Some zero_layers_message) ''config'') ''position'')
                           (read_prop (read_prop (Some zero_layers_message) ''config'') ''parameters'')
                           (Date_now example_env 3))
                        (wss_clients example_state))"
    by (simp only: onMessage_sends tb outcome.case)
  have t: "map_option sent_types (snd (onMessage example_env 0 zero_layers_text example_state))
     = Some [(0, ''effect_rendered''), (1, ''effect_broadcast''), (2, ''effect_broadcast'')]"
    by (simp only: s) (simp add: sent_types_def)
  have l: "map_option (map layer \<circ> sent_particles 0)
        (snd (onMessage example_env 0 zero_layers_text example_state)) = Some [NaN]"
    by (simp only: s) (simp add: sent_particles_def received_def p layerIndex_zero)
  have d: "map_option (map radius \<circ> sent_particles 0)
        (snd (onMessage example_env 0 zero_layers_text example_state)) = Some [NaN]"
    by (simp only: s) (simp add: sent_particles_def received_def p layerIndex_zero zero_layers_radius)
  have wl: "map_option (map (wire_particle_field ''layer'') \<circ> received 0)
        (snd (onMessage example_env 0 zero_layers_text example_state)) = Some [[Some JNull]]"
    by (simp only: s)
       (simp add: received_def wire_particle_field_reply particle_json_layer p layerIndex_zero)
  have wr: "map_option (map (wire_particle_field ''radius'') \<circ> received 0)
        (snd (onMessage example_env 0 zero_layers_text example_state)) = Some [[Some JNull]]"
    by (simp only: s)
       (simp add: received_def wire_particle_field_reply particle_json_radius p layerIndex_zero
          zero_layers_radius)
  from t l d wl wr show ?thesis by (intro conjI)
qed


end
